theory Spec2Isabelle
  imports Complex_Main
begin

section \<open>Python values, exceptions and strings\<close>

text \<open>
  The program is Python. A \<open>str\<close> is modelled by its UTF-8 bytes (\<open>string\<close>), the
  values that travel through session state, query parameters, JSON payloads and JSON
  responses by \<open>json\<close> (\<open>JNull\<close> is Python's \<open>None\<close>), and every \<open>raise\<close> by a
  value of \<open>exn\<close> on the left of a sum.
\<close>

datatype json =
    JNull
  | JBool bool
  | JInt int
  | JFloat real
  | JStr string
  | JList "json list"
  | JObj "(string \<times> json) list"

datatype exn =
    KeyError string
  | KeyError_int int
  | TypeError string
  | IndexError string
  | AttributeError string
  | HTTPError string
  | RequestException string
  | JSONDecodeError string
  | Exception string

text \<open>\<open>str(e)\<close>. A \<open>KeyError\<close> prints the \<open>repr\<close> of its key. The string keys of
  this program are identifiers, whose \<open>repr\<close> is the key between single quotes;
  \<open>KeyError_int\<close> is the \<open>KeyError\<close> of an integer key, whose \<open>repr\<close> is its decimal
  notation.\<close>

definition quoted :: "string \<Rightarrow> string" where
  "quoted s = [CHR 0x27] @ s @ [CHR 0x27]"

fun show_nat :: "nat \<Rightarrow> string" where
  "show_nat n =
     (if n < 10 then [char_of (48 + n)] else show_nat (n div 10) @ [char_of (48 + n mod 10)])"

declare show_nat.simps [simp del]

definition show_int :: "int \<Rightarrow> string" where
  "show_int i = (if i < 0 then CHR 0x2D # show_nat (nat (- i)) else show_nat (nat i))"

fun str_exn :: "exn \<Rightarrow> string" where
  "str_exn (KeyError k) = quoted k"
| "str_exn (KeyError_int i) = show_int i"
| "str_exn (TypeError t) = t"
| "str_exn (IndexError t) = t"
| "str_exn (AttributeError t) = t"
| "str_exn (HTTPError t) = t"
| "str_exn (RequestException t) = t"
| "str_exn (JSONDecodeError t) = t"
| "str_exn (Exception t) = t"

text \<open>Truth value of a Python object (\<open>if x:\<close>, \<open>x or y\<close>).\<close>

fun truthy :: "json \<Rightarrow> bool" where
  "truthy JNull = False"
| "truthy (JBool b) = b"
| "truthy (JInt i) = (i \<noteq> 0)"
| "truthy (JFloat r) = (r \<noteq> 0)"
| "truthy (JStr s) = (s \<noteq> [])"
| "truthy (JList xs) = (xs \<noteq> [])"
| "truthy (JObj kvs) = (kvs \<noteq> [])"

fun type_name :: "json \<Rightarrow> string" where
  "type_name JNull = ''NoneType''"
| "type_name (JBool b) = ''bool''"
| "type_name (JInt i) = ''int''"
| "type_name (JFloat r) = ''float''"
| "type_name (JStr s) = ''str''"
| "type_name (JList xs) = ''list''"
| "type_name (JObj kvs) = ''dict''"

text \<open>\<open>v[k]\<close> with a string key \<open>k\<close>: a dict is looked up (a decoded JSON object keeps
  the last of two equal keys), anything else raises \<open>TypeError\<close>.\<close>

fun subscript :: "json \<Rightarrow> string \<Rightarrow> exn + json" where
  "subscript (JObj kvs) k =
     (case map_of (rev kvs) k of None \<Rightarrow> Inl (KeyError k) | Some v \<Rightarrow> Inr v)"
| "subscript (JStr s) k = Inl (TypeError (''string indices must be integers, not '' @ quoted ''str''))"
| "subscript (JList xs) k = Inl (TypeError ''list indices must be integers or slices, not str'')"
| "subscript v k = Inl (TypeError (quoted (type_name v) @ '' object is not subscriptable''))"

text \<open>The number of bytes of the UTF-8 character that begins with the byte \<open>c\<close>.\<close>

definition utf8_len :: "char \<Rightarrow> nat" where
  "utf8_len c =
     (let a = (of_char c :: nat) in
      if a < 0xC0 then 1 else if a < 0xE0 then 2 else if a < 0xF0 then 3 else 4)"

text \<open>\<open>v[0]\<close>: the first element of a list, the first character of a string; a
  decoded JSON object has string keys only, so that the key 0 is never there.\<close>

fun subscript0 :: "json \<Rightarrow> exn + json" where
  "subscript0 (JList []) = Inl (IndexError ''list index out of range'')"
| "subscript0 (JList (x # xs)) = Inr x"
| "subscript0 (JStr []) = Inl (IndexError ''string index out of range'')"
| "subscript0 (JStr (c # cs)) = Inr (JStr (take (utf8_len c) (c # cs)))"
| "subscript0 (JObj kvs) = Inl (KeyError_int 0)"
| "subscript0 v = Inl (TypeError (quoted (type_name v) @ '' object is not subscriptable''))"

text \<open>\<open>"literal" + v\<close>: only a \<open>str\<close> can be appended to a \<open>str\<close>.\<close>

fun concat_str :: "string \<Rightarrow> json \<Rightarrow> exn + string" where
  "concat_str lit (JStr s) = Inr (lit @ s)"
| "concat_str lit v =
     Inl (TypeError (''can only concatenate str (not '' @ [CHR 0x22] @ type_name v
                    @ [CHR 0x22] @ '') to str''))"

subsection \<open>\<open>str.upper\<close>, \<open>str.split\<close>, \<open>str.strip\<close>\<close>

text \<open>\<open>str.upper\<close> follows the case mapping of Unicode, a table of the Python runtime
  and not of this repository: the code that calls it takes the mapping as a parameter,
  and what is proved of that code holds for every mapping. \<open>ascii_upper\<close> is
  \<open>str.upper\<close> on the strings whose bytes are all below 128, where it maps the letters
  \<open>a\<close> to \<open>z\<close> and keeps the rest; it serves in the examples, which are such
  strings.\<close>

definition upper_char :: "char \<Rightarrow> char" where
  "upper_char c =
     (let n = (of_char c :: nat) in if 97 \<le> n \<and> n \<le> 122 then char_of (n - 32) else c)"

definition ascii_upper :: "string \<Rightarrow> string" where
  "ascii_upper s = map upper_char s"

text \<open>\<open>ws_len s\<close> is the number of bytes of the whitespace character at the head of
  \<open>s\<close>, and 0 when \<open>s\<close> does not start with one. The whitespace characters are those of
  \<open>str.isspace\<close>: U+0009..U+000D, U+001C..U+0020, U+0085, U+00A0, U+1680,
  U+2000..U+200A, U+2028, U+2029, U+202F, U+205F and U+3000, in UTF-8.\<close>

definition ws3 :: "nat \<Rightarrow> nat \<Rightarrow> nat \<Rightarrow> bool" where
  "ws3 a b c =
     ((a = 0xE1 \<and> b = 0x9A \<and> c = 0x80)
    \<or> (a = 0xE2 \<and> b = 0x80 \<and> ((0x80 \<le> c \<and> c \<le> 0x8A) \<or> c = 0xA8 \<or> c = 0xA9 \<or> c = 0xAF))
    \<or> (a = 0xE2 \<and> b = 0x81 \<and> c = 0x9F)
    \<or> (a = 0xE3 \<and> b = 0x80 \<and> c = 0x80))"

fun ws_len :: "string \<Rightarrow> nat" where
  "ws_len [] = 0"
| "ws_len (c # cs) =
     (let a = (of_char c :: nat) in
      if (9 \<le> a \<and> a \<le> 13) \<or> (28 \<le> a \<and> a \<le> 32) then 1
      else (case cs of
              [] \<Rightarrow> 0
            | d # ds \<Rightarrow>
                if a = 0xC2 \<and> (of_char d = (0x85 :: nat) \<or> of_char d = (0xA0 :: nat)) then 2
                else (case ds of
                        [] \<Rightarrow> 0
                      | e # es \<Rightarrow> if ws3 a (of_char d) (of_char e) then 3 else 0)))"

definition flush :: "string \<Rightarrow> string list" where
  "flush cur = (if cur = [] then [] else [cur])"

text \<open>\<open>tokens k cur s\<close> scans \<open>s\<close>: \<open>k\<close> is the number of bytes still to skip of a
  whitespace character that has begun, \<open>cur\<close> the token read so far.\<close>

fun tokens :: "nat \<Rightarrow> string \<Rightarrow> string \<Rightarrow> string list" where
  "tokens k cur [] = flush cur"
| "tokens k cur (c # cs) =
     (if 0 < k then tokens (k - 1) cur cs
      else if 0 < ws_len (c # cs) then flush cur @ tokens (ws_len (c # cs) - 1) [] cs
      else tokens 0 (cur @ [c]) cs)"

text \<open>\<open>s.split()\<close>: the maximal runs of characters that are not whitespace.\<close>

definition split :: "string \<Rightarrow> string list" where
  "split s = tokens 0 [] s"

text \<open>\<open>s.split(sep)\<close> for a separator of one character.\<close>

fun split_on :: "char \<Rightarrow> string \<Rightarrow> string list" where
  "split_on sep [] = [[]]"
| "split_on sep (c # cs) =
     (if c = sep then [] # split_on sep cs
      else (case split_on sep cs of [] \<Rightarrow> [[c]] | w # ws \<Rightarrow> (c # w) # ws))"

fun lstrip :: "nat \<Rightarrow> string \<Rightarrow> string" where
  "lstrip k [] = []"
| "lstrip k (c # cs) =
     (if 0 < k then lstrip (k - 1) cs
      else if 0 < ws_len (c # cs) then lstrip (ws_len (c # cs) - 1) cs
      else c # cs)"

text \<open>\<open>rstrip k pend s\<close> keeps in \<open>pend\<close> the whitespace read since the last other
  character, and drops it at the end of the string.\<close>

fun rstrip :: "nat \<Rightarrow> string \<Rightarrow> string \<Rightarrow> string" where
  "rstrip k pend [] = []"
| "rstrip k pend (c # cs) =
     (if 0 < k then rstrip (k - 1) (pend @ [c]) cs
      else if 0 < ws_len (c # cs) then rstrip (ws_len (c # cs) - 1) (pend @ [c]) cs
      else pend @ c # rstrip 0 [] cs)"

definition strip :: "string \<Rightarrow> string" where
  "strip s = rstrip 0 [] (lstrip 0 s)"

fun join :: "string \<Rightarrow> string list \<Rightarrow> string" where
  "join sep [] = []"
| "join sep [x] = x"
| "join sep (x # y # ys) = x @ sep @ join sep (y # ys)"


section \<open>Session context and HTTP\<close>

text \<open>The session state (\<open>tool_context.state\<close>, \<open>session.state\<close>) is a dictionary from
  keys to values. \<open>state[k]\<close> raises \<open>KeyError\<close> on a key that is absent, \<open>state.get(k)\<close>
  gives \<open>None\<close> there and \<open>state.get(k, d)\<close> gives \<open>d\<close>.\<close>

type_synonym state = "string \<rightharpoonup> json"

definition item :: "state \<Rightarrow> string \<Rightarrow> exn + json" where
  "item st k = (case st k of None \<Rightarrow> Inl (KeyError k) | Some v \<Rightarrow> Inr v)"

definition get_or :: "state \<Rightarrow> string \<Rightarrow> json \<Rightarrow> json" where
  "get_or st k d = (case st k of None \<Rightarrow> d | Some v \<Rightarrow> v)"

definition get :: "state \<Rightarrow> string \<Rightarrow> json" where
  "get st k = get_or st k JNull"

text \<open>A header of a request. \<open>Bearer v\<close> is the header
  \<open>"Authorization": f"Bearer {token}"\<close> built from the Python value \<open>v\<close>; with
  \<open>v = JNull\<close> it reads \<open>Bearer None\<close>.\<close>

datatype header = Bearer json | Header string string

text \<open>What is handed to \<open>requests.get/post/put/patch/delete\<close>: the keyword arguments
  \<open>params\<close>, \<open>json\<close>, \<open>headers\<close>, \<open>cookies\<close> and \<open>timeout\<close>, in the order the
  dictionaries are filled.\<close>

record request =
  http_method :: string
  url :: string
  params :: "(string \<times> json) list"
  payload :: "json option"
  headers :: "header list"
  cookies :: "(string \<times> string) list"
  timeout :: nat

text \<open>What comes back: the status code, the message that \<open>raise_for_status\<close> puts
  into its \<open>HTTPError\<close>, the body decoded by \<open>response.json()\<close> (or the message of the
  decoding error) and the cookies.\<close>

record response =
  status_code :: nat
  error_text :: string
  body :: "string + json"
  resp_cookies :: "string \<rightharpoonup> string"

text \<open>The remote side: a request either gets no response (timeout, connection error:
  a \<open>RequestException\<close> that is not an \<open>HTTPError\<close>) or gets one.\<close>

datatype outcome = Fails string | Responds response

type_synonym http = "request \<Rightarrow> outcome"

definition send :: "http \<Rightarrow> request \<Rightarrow> exn + response" where
  "send net rq = (case net rq of Fails t \<Rightarrow> Inl (RequestException t) | Responds r \<Rightarrow> Inr r)"

text \<open>\<open>response.raise_for_status()\<close> of the requests library raises on the client and
  server error codes, 400 to 599.\<close>

definition raise_for_status :: "response \<Rightarrow> exn + unit" where
  "raise_for_status r =
     (if 400 \<le> status_code r \<and> status_code r < 600 then Inl (HTTPError (error_text r))
      else Inr ())"

definition response_json :: "response \<Rightarrow> exn + json" where
  "response_json r = (case body r of Inl t \<Rightarrow> Inl (JSONDecodeError t) | Inr v \<Rightarrow> Inr v)"

text \<open>The three lines that end most tools:
  \<open>response = requests.<method>(...)\<close>, \<open>response.raise_for_status()\<close>,
  \<open>return response.json()\<close>.\<close>

definition fetch_json :: "http \<Rightarrow> request \<Rightarrow> exn + json" where
  "fetch_json net rq =
     (case send net rq of
        Inl e \<Rightarrow> Inl e
      | Inr r \<Rightarrow> (case raise_for_status r of Inl e \<Rightarrow> Inl e | Inr u \<Rightarrow> response_json r))"

text \<open>The same without the decoding, for the tools that return a record of their own.\<close>

definition fetch_status :: "http \<Rightarrow> request \<Rightarrow> exn + response" where
  "fetch_status net rq =
     (case send net rq of
        Inl e \<Rightarrow> Inl e
      | Inr r \<Rightarrow> (case raise_for_status r of Inl e \<Rightarrow> Inl e | Inr u \<Rightarrow> Inr r))"

section \<open>The tool layer\<close>

text \<open>A run of a tool: what it returns to its caller (or the exception it lets
  through), the requests it has sent, and the session state it leaves. \<open>print\<close> is
  not modelled.\<close>

record run =
  returned :: "exn + json"
  sent :: "request list"
  ctx :: state

text \<open>\<open>except Exception as e: return {"status": "error", "error_message": f"<prefix>{str(e)}"}\<close>\<close>

definition error_record :: "string \<Rightarrow> exn \<Rightarrow> json" where
  "error_record prefix e =
     JObj [(''status'', JStr ''error''), (''error_message'', JStr (prefix @ str_exn e))]"

text \<open>A tool whose whole body is inside \<open>try\<close>: \<open>prep\<close> is the part that reads the
  context and builds the request, which may raise before anything is sent.\<close>

definition try_fetch :: "string \<Rightarrow> state \<Rightarrow> http \<Rightarrow> exn + request \<Rightarrow> run" where
  "try_fetch prefix st net prep =
     (case prep of
        Inl e \<Rightarrow> \<lparr>returned = Inr (error_record prefix e), sent = [], ctx = st\<rparr>
      | Inr rq \<Rightarrow>
          \<lparr>returned = Inr (case fetch_json net rq of
                             Inl e \<Rightarrow> error_record prefix e
                           | Inr v \<Rightarrow> v),
           sent = [rq], ctx = st\<rparr>)"

text \<open>A tool that builds its headers before \<open>try\<close>: an exception of \<open>prep\<close> reaches
  the caller.\<close>

definition fetch_after :: "string \<Rightarrow> state \<Rightarrow> http \<Rightarrow> exn + request \<Rightarrow> run" where
  "fetch_after prefix st net prep =
     (case prep of
        Inl e \<Rightarrow> \<lparr>returned = Inl e, sent = [], ctx = st\<rparr>
      | Inr rq \<Rightarrow>
          \<lparr>returned = Inr (case fetch_json net rq of
                             Inl e \<Rightarrow> error_record prefix e
                           | Inr v \<Rightarrow> v),
           sent = [rq], ctx = st\<rparr>)"

text \<open>The delete tools: on success the record
  \<open>{"status": "success", "message": f"<kind> {id} deleted successfully."}\<close>.\<close>

definition try_delete :: "string \<Rightarrow> string \<Rightarrow> state \<Rightarrow> http \<Rightarrow> request \<Rightarrow> run" where
  "try_delete prefix msg st net rq =
     \<lparr>returned = Inr (case fetch_status net rq of
                        Inl e \<Rightarrow> error_record prefix e
                      | Inr r \<Rightarrow> JObj [(''status'', JStr ''success''), (''message'', JStr msg)]),
      sent = [rq], ctx = st\<rparr>"

text \<open>Parameters with a default: the caller gives a value or leaves the parameter out,
  and then the default is bound. \<open>opt\<close> is an \<open>Optional[..] = None\<close> parameter.\<close>

datatype 'a arg = Omitted | Given 'a

fun bind_arg :: "'a \<Rightarrow> 'a arg \<Rightarrow> 'a" where
  "bind_arg d Omitted = d"
| "bind_arg d (Given v) = v"

definition opt :: "'a option arg \<Rightarrow> 'a option" where
  "opt a = bind_arg None a"

text \<open>\<open>if v is not None: d[k] = v\<close>\<close>

definition put_opt :: "string \<Rightarrow> ('a \<Rightarrow> json) \<Rightarrow> 'a option \<Rightarrow> (string \<times> json) list" where
  "put_opt k f v = (case v of None \<Rightarrow> [] | Some x \<Rightarrow> [(k, f x)])"

definition put_json :: "string \<Rightarrow> json \<Rightarrow> (string \<times> json) list" where
  "put_json k v = (if v = JNull then [] else [(k, v)])"

definition strs :: "string list \<Rightarrow> json" where
  "strs xs = JList (map JStr xs)"

definition base :: string where
  "base = ''https://dev.api.oy-gul.uz/api''"

definition json_headers :: "json \<Rightarrow> header list" where
  "json_headers token =
     [Bearer token, Header ''Content-Type'' ''application/json'',
      Header ''Accept'' ''application/json'']"


text \<open>Sequencing of steps that may raise.\<close>

definition and_then :: "exn + 'a \<Rightarrow> ('a \<Rightarrow> exn + 'b) \<Rightarrow> exn + 'b" where
  "and_then m f = (case m of Inl e \<Rightarrow> Inl e | Inr v \<Rightarrow> f v)"

definition of_opt :: "('a \<Rightarrow> json) \<Rightarrow> 'a option \<Rightarrow> json" where
  "of_opt f v = (case v of None \<Rightarrow> JNull | Some x \<Rightarrow> f x)"

subsection \<open>tools/transaction/orders.py\<close>

definition create_order ::
  "json \<Rightarrow> string \<Rightarrow> string option \<Rightarrow> state \<Rightarrow> http \<Rightarrow> run" where
  "create_order products payment_type gift_card_note st net =
     try_fetch ''Failed to create order: '' st net
       (and_then (item st ''user_id'') (\<lambda>user_id.
        and_then (item st ''merchant_id'') (\<lambda>merchant_id.
        and_then (item st ''branch_id'') (\<lambda>branch_id.
        and_then (item st ''bearer_token'') (\<lambda>token.
          Inr \<lparr>http_method = ''POST'', url = base @ ''/transaction/orders'', params = [],
               payload = Some (JObj
                 [(''userId'', user_id), (''merchantId'', merchant_id),
                  (''branchId'', branch_id), (''paymentType'', JStr payment_type),
                  (''products'', products), (''giftCardNote'', of_opt JStr gift_card_note)]),
               headers = [Bearer token], cookies = [], timeout = 10\<rparr>)))))"

definition get_payment_types :: "state \<Rightarrow> http \<Rightarrow> run" where
  "get_payment_types st net =
     fetch_after ''Failed to get payment types: '' st net
       (and_then (item st ''bearer_token'') (\<lambda>token.
          Inr \<lparr>http_method = ''GET'', url = base @ ''/transaction/payment-types'', params = [],
               payload = None, headers = [Bearer token], cookies = [], timeout = 10\<rparr>))"

definition statuses :: "string list" where
  "statuses = [''PENDING'', ''FAILED'', ''CANCELED'', ''REFUND'', ''SUCCESSFUL'']"

definition invalid_status :: "string \<Rightarrow> exn" where
  "invalid_status status =
     Exception (''Invalid status: '' @ status @ ''. Valid statuses are: '' @ join '', '' statuses)"

text \<open>\<open>upper\<close> is \<open>str.upper\<close>, so that \<open>upper status0\<close> is \<open>status.upper()\<close>.\<close>

definition get_orders_by_status ::
  "(string \<Rightarrow> string) \<Rightarrow> string \<Rightarrow> state \<Rightarrow> http \<Rightarrow> int option arg \<Rightarrow> int option arg
     \<Rightarrow> run" where
  "get_orders_by_status upper status0 st net page limit =
     (let status = upper status0 in
      try_fetch ''Failed to get orders: '' st net
        (if status \<notin> set statuses then Inl (invalid_status status)
         else
           (let params =
                  [(''page'', (case opt page of Some p \<Rightarrow> JInt p | None \<Rightarrow> JInt 1)),
                   (''limit'', (case opt limit of Some l \<Rightarrow> JInt l | None \<Rightarrow> JInt 20)),
                   (''transactionStatus'', JStr status)]
            in and_then (item st ''bearer_token'') (\<lambda>token.
                 Inr \<lparr>http_method = ''GET'', url = base @ ''/transaction/orders'', params = params,
                      payload = None, headers = [Bearer token], cookies = [],
                      timeout = 10\<rparr>))))"

definition confirm_order :: "string \<Rightarrow> state \<Rightarrow> http \<Rightarrow> run" where
  "confirm_order order_id st net =
     fetch_after ''Failed to confirm order: '' st net
       (let params = [(''orderId'', JStr (strip order_id))]
        in and_then (item st ''bearer_token'') (\<lambda>token.
             Inr \<lparr>http_method = ''PATCH'', url = base @ ''/transaction/orders/confirm'',
                  params = params, payload = None, headers = [Bearer token], cookies = [],
                  timeout = 10\<rparr>))"

definition cancel_order :: "string \<Rightarrow> state \<Rightarrow> http \<Rightarrow> run" where
  "cancel_order order_id st net =
     fetch_after ''Failed to cancel order: '' st net
       (and_then (item st ''bearer_token'') (\<lambda>token.
          Inr \<lparr>http_method = ''PATCH'', url = base @ ''/transaction/orders/cancel/'' @ order_id,
               params = [], payload = None, headers = [Bearer token], cookies = [],
               timeout = 10\<rparr>))"

subsection \<open>tools/content/flowers.py\<close>

definition create_flower_master ::
  "json \<Rightarrow> json \<Rightarrow> int \<Rightarrow> int \<Rightarrow> int \<Rightarrow> bool \<Rightarrow> bool \<Rightarrow> string list \<Rightarrow> state \<Rightarrow> http \<Rightarrow> run"
  where
  "create_flower_master name description quantity unit_cost price sold_separately sold_online
       photo_urls st net =
     try_fetch ''Failed to create flower (master): '' st net
       (and_then (item st ''merchant_id'') (\<lambda>merchant_id.
        and_then (item st ''branch_id'') (\<lambda>branch_id.
          Inr \<lparr>http_method = ''POST'', url = base @ ''/content/flowers/master/'', params = [],
               payload = Some (JObj
                 [(''merchant_id'', merchant_id), (''branch_id'', branch_id),
                  (''name'', name), (''description'', description),
                  (''quantity'', JInt quantity), (''unit_cost'', JInt unit_cost),
                  (''price'', JInt price), (''sold_separately'', JBool sold_separately),
                  (''sold_online'', JBool sold_online), (''photo_urls'', strs photo_urls),
                  (''tags'', JList []), (''consumables'', JList [])]),
               headers = [Bearer (get st ''bearer_token'')], cookies = [],
               timeout = 10\<rparr>)))"

text \<open>The query parameters of the three list tools of the content service, in the order
  the source fills \<open>params\<close>.\<close>

definition list_params ::
  "json \<Rightarrow> json \<Rightarrow> string option \<Rightarrow> string list option \<Rightarrow> string list option \<Rightarrow> json
     \<Rightarrow> int option \<Rightarrow> int option \<Rightarrow> string option \<Rightarrow> (string \<times> json) list" where
  "list_params merchant_id branch_id search type_ids ids lang page limit sort' =
     [(''merchant_id'', merchant_id), (''branch_id'', branch_id)]
     @ put_opt ''search'' JStr search
     @ put_opt ''type_id'' strs type_ids
     @ put_opt ''id'' strs ids
     @ put_json ''lang'' lang
     @ put_opt ''page'' JInt page
     @ put_opt ''limit'' JInt limit
     @ put_opt ''sort'' JStr sort'"

definition sort_default :: "string option" where
  "sort_default = Some ''updatedAt-desc''"

definition get_flowers ::
  "state \<Rightarrow> http \<Rightarrow> string option arg \<Rightarrow> string list option arg \<Rightarrow> string list option arg
     \<Rightarrow> int option arg \<Rightarrow> int option arg \<Rightarrow> string option arg \<Rightarrow> run" where
  "get_flowers st net search flower_type_ids flower_ids page limit sort' =
     try_fetch ''Failed to get flowers: '' st net
       (and_then (item st ''merchant_id'') (\<lambda>merchant_id.
        and_then (item st ''branch_id'') (\<lambda>branch_id.
          Inr \<lparr>http_method = ''GET'', url = base @ ''/content/flowers'',
               params = list_params merchant_id branch_id (opt search) (opt flower_type_ids)
                          (opt flower_ids) (get st ''lang'') (opt page) (opt limit)
                          (bind_arg sort_default sort'),
               payload = None, headers = [Bearer (get st ''bearer_token'')], cookies = [],
               timeout = 10\<rparr>)))"

definition update_flower ::
  "state \<Rightarrow> http \<Rightarrow> string \<Rightarrow> int \<Rightarrow> int option arg \<Rightarrow> bool option arg \<Rightarrow> bool option arg \<Rightarrow> run"
  where
  "update_flower st net flower_id quantity price sold_separately sold_online =
     try_fetch ''Failed to update flower master: '' st net
       (Inr \<lparr>http_method = ''PUT'', url = base @ ''/content/flowers/'' @ flower_id @ ''/'',
             params = [],
             payload = Some (JObj
               ([(''quantity'', JInt quantity)]
                @ put_opt ''price'' JInt (opt price)
                @ put_opt ''sold_separately'' JBool (opt sold_separately)
                @ put_opt ''sold_online'' JBool (opt sold_online))),
             headers = json_headers (get st ''bearer_token''), cookies = [], timeout = 10\<rparr>)"

definition update_flower_type ::
  "state \<Rightarrow> http \<Rightarrow> string \<Rightarrow> json arg \<Rightarrow> json arg \<Rightarrow> string list option arg \<Rightarrow> run" where
  "update_flower_type st net flower_type_id name description photo_urls =
     try_fetch ''Failed to update flower (master): '' st net
       (Inr \<lparr>http_method = ''PUT'', url = base @ ''/content/flower-types/'' @ flower_type_id @ ''/'',
             params = [],
             payload = Some (JObj
               ([(''name'', bind_arg JNull name),
                 (''photo_urls'', of_opt strs (opt photo_urls))]
                @ put_json ''description'' (bind_arg JNull description))),
             headers = json_headers (get st ''bearer_token''), cookies = [], timeout = 10\<rparr>)"

definition delete_flower_type :: "string \<Rightarrow> state \<Rightarrow> http \<Rightarrow> run" where
  "delete_flower_type flower_type_id st net =
     try_delete ''Failed to delete flower_type: ''
       (''flower_type '' @ flower_type_id @ '' deleted successfully.'') st net
       \<lparr>http_method = ''DELETE'', url = base @ ''/content/flower-types/'' @ flower_type_id,
        params = [], payload = None, headers = [Bearer (get st ''bearer_token'')],
        cookies = [], timeout = 10\<rparr>"


subsection \<open>tools/content/bouquets.py\<close>

definition create_bouquet_master ::
  "json \<Rightarrow> json \<Rightarrow> int \<Rightarrow> bool \<Rightarrow> string list \<Rightarrow> json \<Rightarrow> json \<Rightarrow> state \<Rightarrow> http \<Rightarrow> run" where
  "create_bouquet_master name description price sold_online photo_urls tags products_spent
       st net =
     try_fetch ''Failed to create bouquet (master): '' st net
       (and_then (item st ''merchant_id'') (\<lambda>merchant_id.
        and_then (item st ''branch_id'') (\<lambda>branch_id.
          Inr \<lparr>http_method = ''POST'', url = base @ ''/content/bouquets/master/'', params = [],
               payload = Some (JObj
                 [(''merchant_id'', merchant_id), (''branch_id'', branch_id),
                  (''name'', name), (''description'', description), (''price'', JInt price),
                  (''sold_online'', JBool sold_online), (''photo_urls'', strs photo_urls),
                  (''tags'', tags), (''products_spent'', products_spent)]),
               headers = [Bearer (get st ''bearer_token'')], cookies = [],
               timeout = 10\<rparr>)))"

text \<open>\<open>get_bouquets\<close> takes \<open>lang\<close> as a parameter; the other two list tools read it
  from the session state.\<close>

definition get_bouquets ::
  "state \<Rightarrow> http \<Rightarrow> string option arg \<Rightarrow> string list option arg \<Rightarrow> string list option arg
     \<Rightarrow> string option arg \<Rightarrow> int option arg \<Rightarrow> int option arg \<Rightarrow> string option arg \<Rightarrow> run"
  where
  "get_bouquets st net search bouquet_type_ids bouquet_ids lang page limit sort' =
     try_fetch ''Failed to get bouquets: '' st net
       (and_then (item st ''merchant_id'') (\<lambda>merchant_id.
        and_then (item st ''branch_id'') (\<lambda>branch_id.
          Inr \<lparr>http_method = ''GET'', url = base @ ''/content/bouquets'',
               params = list_params merchant_id branch_id (opt search) (opt bouquet_type_ids)
                          (opt bouquet_ids) (of_opt JStr (opt lang)) (opt page) (opt limit)
                          (bind_arg sort_default sort'),
               payload = None, headers = [Bearer (get st ''bearer_token'')], cookies = [],
               timeout = 10\<rparr>)))"

definition update_bouquet ::
  "state \<Rightarrow> http \<Rightarrow> string \<Rightarrow> int option arg \<Rightarrow> int option arg \<Rightarrow> bool option arg \<Rightarrow> run" where
  "update_bouquet st net bouquet_id quantity price sold_online =
     try_fetch ''Failed to update bouquet: '' st net
       (Inr \<lparr>http_method = ''PUT'', url = base @ ''/content/bouquets/'' @ bouquet_id @ ''/'',
             params = [],
             payload = Some (JObj
               (put_opt ''quantity'' JInt (opt quantity)
                @ put_opt ''price'' JInt (opt price)
                @ put_opt ''sold_online'' JBool (opt sold_online))),
             headers = json_headers (get st ''bearer_token''), cookies = [], timeout = 10\<rparr>)"

definition update_bouquet_type ::
  "state \<Rightarrow> http \<Rightarrow> string \<Rightarrow> json arg \<Rightarrow> json arg \<Rightarrow> json arg \<Rightarrow> string list option arg
     \<Rightarrow> json arg \<Rightarrow> run" where
  "update_bouquet_type st net bouquet_type_id name description tags photo_urls products_spent =
     try_fetch ''Failed to update bouquet type: '' st net
       (Inr \<lparr>http_method = ''PUT'', url = base @ ''/content/bouquet-types/'' @ bouquet_type_id @ ''/'',
             params = [],
             payload = Some (JObj
               (put_json ''name'' (bind_arg JNull name)
                @ put_json ''description'' (bind_arg JNull description)
                @ put_json ''tags'' (bind_arg JNull tags)
                @ put_opt ''photo_urls'' strs (opt photo_urls)
                @ put_json ''products_spent'' (bind_arg JNull products_spent))),
             headers = json_headers (get st ''bearer_token''), cookies = [], timeout = 10\<rparr>)"

definition delete_bouquet_type :: "string \<Rightarrow> state \<Rightarrow> http \<Rightarrow> run" where
  "delete_bouquet_type bouquet_type_id st net =
     try_delete ''Failed to delete bouquet_type: ''
       (''bouquet_type '' @ bouquet_type_id @ '' deleted successfully.'') st net
       \<lparr>http_method = ''DELETE'', url = base @ ''/content/bouquet-types/'' @ bouquet_type_id,
        params = [], payload = None, headers = [Bearer (get st ''bearer_token'')],
        cookies = [], timeout = 10\<rparr>"

subsection \<open>tools/content/consumables.py\<close>

definition create_consumable_master ::
  "state \<Rightarrow> http \<Rightarrow> json \<Rightarrow> string \<Rightarrow> real \<Rightarrow> real \<Rightarrow> string list option \<Rightarrow> run" where
  "create_consumable_master st net name measurement_type_id quantity unit_cost photo_urls =
     try_fetch ''Failed to create consumable (master): '' st net
       (and_then (item st ''merchant_id'') (\<lambda>merchant_id.
        and_then (item st ''branch_id'') (\<lambda>branch_id.
          Inr \<lparr>http_method = ''POST'', url = base @ ''/content/consumables/master/'', params = [],
               payload = Some (JObj
                 ([(''merchant_id'', merchant_id), (''branch_id'', branch_id),
                   (''name'', name), (''measurement_type_id'', JStr measurement_type_id),
                   (''quantity'', JFloat quantity), (''unit_cost'', JFloat unit_cost)]
                  @ put_opt ''photo_urls'' strs photo_urls)),
               headers = [Bearer (get st ''bearer_token'')], cookies = [],
               timeout = 10\<rparr>)))"

definition get_consumables ::
  "state \<Rightarrow> http \<Rightarrow> string option arg \<Rightarrow> string list option arg \<Rightarrow> string list option arg
     \<Rightarrow> int option arg \<Rightarrow> int option arg \<Rightarrow> string option arg \<Rightarrow> run" where
  "get_consumables st net search consumable_type_ids consumable_ids page limit sort' =
     try_fetch ''Failed to get consumables: '' st net
       (and_then (item st ''merchant_id'') (\<lambda>merchant_id.
        and_then (item st ''branch_id'') (\<lambda>branch_id.
          Inr \<lparr>http_method = ''GET'', url = base @ ''/content/consumables'',
               params = list_params merchant_id branch_id (opt search)
                          (opt consumable_type_ids) (opt consumable_ids) (get st ''lang'')
                          (opt page) (opt limit) (bind_arg sort_default sort'),
               payload = None, headers = [Bearer (get st ''bearer_token'')], cookies = [],
               timeout = 10\<rparr>)))"

definition update_consumable :: "state \<Rightarrow> http \<Rightarrow> string \<Rightarrow> real \<Rightarrow> run" where
  "update_consumable st net consumable_id quantity =
     try_fetch ''Failed to update consumable: '' st net
       (Inr \<lparr>http_method = ''PUT'', url = base @ ''/content/consumables/'' @ consumable_id @ ''/'',
             params = [], payload = Some (JObj [(''quantity'', JFloat quantity)]),
             headers = json_headers (get st ''bearer_token''), cookies = [], timeout = 10\<rparr>)"

definition update_consumable_type ::
  "state \<Rightarrow> http \<Rightarrow> string \<Rightarrow> json arg \<Rightarrow> string option arg \<Rightarrow> string list option arg \<Rightarrow> run"
  where
  "update_consumable_type st net consumable_type_id name measurement_type_id photo_urls =
     try_fetch ''Failed to update consumable type: '' st net
       (Inr \<lparr>http_method = ''PUT'',
             url = base @ ''/content/consumable-types/'' @ consumable_type_id @ ''/'',
             params = [],
             payload = Some (JObj
               (put_json ''name'' (bind_arg JNull name)
                @ put_opt ''measurement_type_id'' JStr (opt measurement_type_id)
                @ put_opt ''photo_urls'' strs (opt photo_urls))),
             headers = json_headers (get st ''bearer_token''), cookies = [], timeout = 10\<rparr>)"

definition delete_consumable_type :: "string \<Rightarrow> state \<Rightarrow> http \<Rightarrow> run" where
  "delete_consumable_type consumable_type_id st net =
     try_delete ''Failed to delete consumable_type: ''
       (''consumable_type '' @ consumable_type_id @ '' deleted successfully.'') st net
       \<lparr>http_method = ''DELETE'', url = base @ ''/content/consumable-types/'' @ consumable_type_id,
        params = [], payload = None, headers = [Bearer (get st ''bearer_token'')],
        cookies = [], timeout = 10\<rparr>"

subsection \<open>tools/content/measurement_types.py, supply.py, feed.py\<close>

definition get_all_measurement_types :: "state \<Rightarrow> http \<Rightarrow> run" where
  "get_all_measurement_types st net =
     try_fetch ''Failed to get measurement types: '' st net
       (Inr \<lparr>http_method = ''GET'', url = base @ ''/content/measurement-types'',
             params = put_json ''lang'' (get st ''lang''), payload = None,
             headers = [Bearer (get st ''bearer_token'')], cookies = [], timeout = 10\<rparr>)"

text \<open>\<open>now\<close> is the text of \<open>datetime.now(timezone.utc).strftime("%Y-%m-%dT%H:%M:%S")\<close>
  at the time of the call.\<close>

definition create_supply ::
  "string \<Rightarrow> state \<Rightarrow> http \<Rightarrow> int \<Rightarrow> int \<Rightarrow> string \<Rightarrow> string \<Rightarrow> run" where
  "create_supply now st net quantity unit_cost product_type product_id =
     try_fetch ''Failed to create supply: '' st net
       (and_then (item st ''branch_id'') (\<lambda>branch_id.
          Inr \<lparr>http_method = ''POST'', url = base @ ''/content/supplies/'', params = [],
               payload = Some (JObj
                 [(''branchId'', branch_id), (''supplyDate'', JStr now),
                  (''quantity'', JInt quantity), (''unitCost'', JInt unit_cost),
                  (''productType'', JStr product_type), (''productId'', JStr product_id)]),
               headers = [Bearer (get st ''bearer_token'')], cookies = [],
               timeout = 10\<rparr>))"

text \<open>\<open>if v: d[k] = v\<close> for a string, and \<open>str(b).lower()\<close> for a Boolean.\<close>

definition put_str :: "string \<Rightarrow> string option \<Rightarrow> (string \<times> json) list" where
  "put_str k v = (case v of None \<Rightarrow> [] | Some s \<Rightarrow> if s = [] then [] else [(k, JStr s)])"

definition lower_bool :: "bool \<Rightarrow> string" where
  "lower_bool b = (if b then ''true'' else ''false'')"

definition search_feed ::
  "state \<Rightarrow> http \<Rightarrow> int option arg \<Rightarrow> int option arg \<Rightarrow> string option arg \<Rightarrow> string option arg
     \<Rightarrow> int option arg \<Rightarrow> int option arg \<Rightarrow> string option arg \<Rightarrow> bool option arg
     \<Rightarrow> string list option arg \<Rightarrow> run" where
  "search_feed st net page0 limit0 product_type search min_price max_price sort' has_discount
       tags =
     (let page = (case opt page0 of None \<Rightarrow> 1 | Some p \<Rightarrow> p);
          limit = (case opt limit0 of None \<Rightarrow> 20 | Some l \<Rightarrow> l);
          merchant_id = get st ''merchant_id''
      in try_fetch ''Failed to search feed: '' st net
           (Inr \<lparr>http_method = ''GET'', url = base @ ''/content/feed'',
                 params =
                   [(''page'', JInt page), (''limit'', JInt limit),
                    (''lang'', get_or st ''user_language'' (JStr ''ru''))]
                   @ (if truthy merchant_id then [(''merchant_id'', merchant_id)] else [])
                   @ put_str ''product_type'' (opt product_type)
                   @ put_str ''search'' (opt search)
                   @ put_opt ''min_price'' JInt (opt min_price)
                   @ put_opt ''max_price'' JInt (opt max_price)
                   @ put_str ''sort'' (opt sort')
                   @ put_opt ''has_discount'' (\<lambda>b. JStr (lower_bool b)) (opt has_discount)
                   @ (case opt tags of
                        None \<Rightarrow> []
                      | Some ts \<Rightarrow> if ts = [] then [] else [(''tags'', JStr (join '','' ts))]),
                 payload = None, headers = [], cookies = [], timeout = 10\<rparr>))"

subsection \<open>tools/auth/auth.py\<close>

text \<open>\<open>refresh_token\<close> returns \<open>None\<close> after it has stored the new tokens, and a record
  with the key \<open>message\<close> when anything in its \<open>try\<close> block raises.\<close>

definition refresh_token :: "string \<Rightarrow> state \<Rightarrow> http \<Rightarrow> run" where
  "refresh_token token st net =
     (let rq = \<lparr>http_method = ''POST'', url = base @ ''/auth/refresh'', params = [], payload = None,
                headers = [], cookies = [(''refreshToken'', token)], timeout = 10\<rparr>;
          caught = (\<lambda>e. JObj [(''status'', JStr ''error''),
                     (''message'', JStr (''error while refreshing the token '' @ str_exn e))])
      in case and_then (fetch_status net rq) (\<lambda>r.
              and_then (response_json r) (\<lambda>b.
              and_then (subscript b ''data'') (\<lambda>d.
              and_then (subscript d ''token'') (\<lambda>t.
                Inr (st(''refresh_token'' \<mapsto> of_opt JStr (resp_cookies r ''refreshToken''),
                        ''bearer_token'' \<mapsto> t)))))) of
           Inl e \<Rightarrow> \<lparr>returned = Inr (caught e), sent = [rq], ctx = st\<rparr>
         | Inr st' \<Rightarrow> \<lparr>returned = Inr JNull, sent = [rq], ctx = st'\<rparr>)"


section \<open>The login client (utils/http\_client.py)\<close>

text \<open>\<open>login\<close> sends up to three requests and lets every exception through to its
  caller. A computation is its result together with the requests it has sent.\<close>

type_synonym 'a io = "(exn + 'a) \<times> request list"

definition io_bind :: "'a io \<Rightarrow> ('a \<Rightarrow> 'b io) \<Rightarrow> 'b io" where
  "io_bind m f =
     (case m of
        (Inl e, l) \<Rightarrow> (Inl e, l)
      | (Inr v, l) \<Rightarrow> (case f v of (r, l') \<Rightarrow> (r, l @ l')))"

definition pure :: "exn + 'a \<Rightarrow> 'a io" where
  "pure x = (x, [])"

text \<open>\<open>response = requests.<method>(...)\<close> followed by \<open>response.raise_for_status()\<close>.\<close>

definition call :: "http \<Rightarrow> request \<Rightarrow> response io" where
  "call net rq = (fetch_status net rq, [rq])"

definition get_user :: "http \<Rightarrow> json \<Rightarrow> json \<Rightarrow> json io" where
  "get_user net user_id token =
     io_bind (pure (concat_str (base @ ''/auth/users/'') user_id)) (\<lambda>base_url.
     io_bind (call net \<lparr>http_method = ''GET'', url = base_url, params = [], payload = None,
                        headers = [Bearer token], cookies = [], timeout = 10\<rparr>) (\<lambda>response.
       pure (response_json response)))"

definition get_branch_id_by_merchant_id :: "http \<Rightarrow> json \<Rightarrow> json \<Rightarrow> json io" where
  "get_branch_id_by_merchant_id net merchant_id token =
     io_bind (pure (concat_str (base @ ''/auth/branch/getAll?merchantId='') merchant_id))
       (\<lambda>base_url.
     io_bind (call net \<lparr>http_method = ''GET'', url = base_url, params = [], payload = None,
                        headers = [Bearer token], cookies = [], timeout = 10\<rparr>) (\<lambda>response.
       pure (and_then (response_json response) (\<lambda>b.
             and_then (subscript b ''data'') (\<lambda>d.
             and_then (subscript0 d) (\<lambda>x. subscript x ''id''))))))"

definition login_request :: "string \<Rightarrow> string \<Rightarrow> request" where
  "login_request username password =
     \<lparr>http_method = ''POST'', url = base @ ''/auth/login'', params = [],
      payload = Some (JObj [(''login'', JStr username), (''password'', JStr password)]),
      headers = [], cookies = [], timeout = 10\<rparr>"

definition login :: "http \<Rightarrow> string \<Rightarrow> string \<Rightarrow> json io" where
  "login net username password =
     io_bind (call net (login_request username password)) (\<lambda>response.
     io_bind (pure (and_then (response_json response) (\<lambda>b.
                    and_then (subscript b ''data'') (\<lambda>d. subscript d ''userId'')))) (\<lambda>user_id.
     io_bind (pure (and_then (response_json response) (\<lambda>b.
                    and_then (subscript b ''data'') (\<lambda>d. subscript d ''token'')))) (\<lambda>bearer_token.
     io_bind (pure (Inr (of_opt JStr (resp_cookies response ''refreshToken'')))) (\<lambda>refresh.
     io_bind (get_user net user_id bearer_token) (\<lambda>user_info.
     io_bind (pure (subscript user_info ''merchantId'')) (\<lambda>merchant_id.
     io_bind (pure (subscript user_info ''branchId'')) (\<lambda>b.
     io_bind (if truthy b then pure (Inr b)
              else get_branch_id_by_merchant_id net merchant_id bearer_token) (\<lambda>branch_id.
       pure (Inr (JObj [(''user_id'', user_id), (''bearer_token'', bearer_token),
                        (''refresh_token'', refresh), (''merchant_id'', merchant_id),
                        (''branch_id'', branch_id)]))))))))))"

section \<open>The session service\<close>

text \<open>The in-memory session service of the agent framework: sessions are kept under
  (application, user, session id); \<open>get_session\<close> gives \<open>None\<close> for a key that is not
  there; \<open>create_session\<close> stores a session with the given state and no events;
  \<open>append_event\<close> merges the state delta of the event into the state of the stored
  session, key by key, and appends the event to its events.\<close>

record event =
  invocation_id :: string
  author :: string
  state_delta :: "(string \<times> json) list"
  timestamp :: real

record session =
  state :: state
  events :: "event list"

type_synonym key = "string \<times> string \<times> string"

type_synonym store = "key \<rightharpoonup> session"

definition get_session :: "store \<Rightarrow> key \<Rightarrow> session option" where
  "get_session sv k = sv k"

definition delete_session :: "store \<Rightarrow> key \<Rightarrow> store" where
  "delete_session sv k = sv(k := None)"

definition create_session :: "store \<Rightarrow> key \<Rightarrow> (string \<times> json) list \<Rightarrow> store" where
  "create_session sv k st = sv(k \<mapsto> \<lparr>state = map_of (rev st), events = []\<rparr>)"

definition merge :: "state \<Rightarrow> (string \<times> json) list \<Rightarrow> state" where
  "merge st delta = st ++ map_of (rev delta)"

definition append_event :: "store \<Rightarrow> key \<Rightarrow> event \<Rightarrow> store" where
  "append_event sv k ev =
     (case sv k of
        None \<Rightarrow> sv
      | Some s \<Rightarrow> sv(k \<mapsto> \<lparr>state = merge (state s) (state_delta ev), events = events s @ [ev]\<rparr>))"

section \<open>The Telegram front end (telegram\_bot.py)\<close>

text \<open>The texts the bot sends are literals in three languages. A reply is named by the
  place of its literal in the source and the language of the literal; \<open>Login_error\<close>
  carries the \<open>str(e)\<close> that its f-string appends.\<close>

datatype language = Uz | Ru | En

datatype reply =
    Ask_credentials language
  | Credentials_format language
  | Logged_in language
  | Invalid_login language
  | Login_error language string
  | Select_language_first
  | Login_first
  | Loading
  | Agent_answer

text \<open>\<open>if lang_code == "uz": ... elif lang_code == "ru": ... else: ...\<close>, where the
  last branch holds the English literal (in \<open>process_language_selection\<close> the chain has
  a branch for \<open>"en"\<close> with the same literal as its \<open>else\<close>).\<close>

definition literal_for :: "json \<Rightarrow> language" where
  "literal_for lang_code =
     (if lang_code = JStr ''uz'' then Uz else if lang_code = JStr ''ru'' then Ru else En)"

text \<open>What a handler has done when it returns: the session store, the replies sent
  to the chat, the requests sent to the backend, the queries handed to the agent
  runtime by \<open>call_agent_async\<close>, and the exception it has let through, if any. Sending
  a reply is taken to succeed. What the agent runtime does with a query is not part of
  this program.\<close>

record handled =
  sessions :: store
  replies :: "reply list"
  requests :: "request list"
  forwarded :: "string option list"
  raised :: "exn option"

definition APP_NAME :: string where
  "APP_NAME = ''erp_agent''"

text \<open>\<open>user_id = str(message.from_user.id)\<close>, \<open>session_id = f"telegram_{user_id}"\<close>;
  \<open>from_user\<close> is the text of the identifier.\<close>

definition session_key :: "string \<Rightarrow> key" where
  "session_key user_id = (APP_NAME, user_id, ''telegram_'' @ user_id)"

record callback_query =
  cb_from_user :: string
  data :: "string option"

record message =
  from_user :: string
  msg_text :: "string option"

text \<open>The filter of the callback handler: \<open>c.data and c.data.startswith('lang_')\<close>.\<close>

definition lang_filter :: "callback_query \<Rightarrow> bool" where
  "lang_filter c = (case data c of None \<Rightarrow> False | Some d \<Rightarrow> d \<noteq> [] \<and> take 5 d = ''lang_'')"

definition process_language_selection :: "store \<Rightarrow> callback_query \<Rightarrow> handled" where
  "process_language_selection sv c =
     (case data c of
        None \<Rightarrow> \<lparr>sessions = sv, replies = [], requests = [], forwarded = [],
                 raised = Some (AttributeError
                   (quoted ''NoneType'' @ '' object has no attribute '' @ quoted ''split''))\<rparr>
      | Some d \<Rightarrow>
          (case split_on CHR ''_'' d of
             p # lang_code # ps \<Rightarrow>
               (let k = session_key (cb_from_user c);
                    session_data = get_session sv k;
                    sv1 = (if session_data \<noteq> None then delete_session sv k else sv);
                    initial_state = [(''user_language'', JStr lang_code),
                                     (''awaiting_credentials'', JBool True)];
                    sv2 = create_session sv1 k initial_state
                in \<lparr>sessions = sv2, replies = [Ask_credentials (literal_for (JStr lang_code))],
                    requests = [], forwarded = [], raised = None\<rparr>)
           | ps \<Rightarrow> \<lparr>sessions = sv, replies = [], requests = [], forwarded = [],
                     raised = Some (IndexError ''list index out of range'')\<rparr>))"

text \<open>\<open>now\<close> is \<open>time.time()\<close> when the event is built.\<close>

definition login_event :: "real \<Rightarrow> (string \<times> json) list \<Rightarrow> event" where
  "login_event now state_upd =
     \<lparr>invocation_id = ''inv_login_update'', author = ''system'', state_delta = state_upd,
      timestamp = now\<rparr>"

definition credentials_handler :: "store \<Rightarrow> http \<Rightarrow> real \<Rightarrow> message \<Rightarrow> handled" where
  "credentials_handler sv net now m =
     (case msg_text m of
        None \<Rightarrow> \<lparr>sessions = sv, replies = [], requests = [], forwarded = [],
                 raised = Some (AttributeError
                   (quoted ''NoneType'' @ '' object has no attribute '' @ quoted ''split''))\<rparr>
      | Some t \<Rightarrow>
          (let credentials = split t in
           case get_session sv (session_key (from_user m)) of
             None \<Rightarrow> \<lparr>sessions = sv, replies = [], requests = [], forwarded = [],
                      raised = Some (AttributeError
                        (quoted ''NoneType'' @ '' object has no attribute '' @ quoted ''state''))\<rparr>
           | Some session \<Rightarrow>
               (let lang_code = get_or (state session) ''user_language'' (JStr ''en'') in
                case credentials of
                  [input_login, password] \<Rightarrow>
                    (case login net input_login password of
                       (res, reqs) \<Rightarrow>
                         (case and_then res (\<lambda>login_response.
                                 and_then (subscript login_response ''user_id'') (\<lambda>uid.
                                 and_then (subscript login_response ''merchant_id'') (\<lambda>mid.
                                 and_then (subscript login_response ''branch_id'') (\<lambda>bid.
                                 and_then (subscript login_response ''bearer_token'') (\<lambda>tok.
                                 and_then (subscript login_response ''refresh_token'') (\<lambda>rtok.
                                   Inr [(''user_language'', lang_code),
                                        (''awaiting_credentials'', JBool False),
                                        (''user_id'', uid), (''merchant_id'', mid),
                                        (''branch_id'', bid), (''bearer_token'', tok),
                                        (''refresh_token'', rtok)])))))) of
                            Inr state_upd \<Rightarrow>
                              \<lparr>sessions = append_event sv (session_key (from_user m))
                                            (login_event now state_upd),
                               replies = [Logged_in (literal_for lang_code)],
                               requests = reqs, forwarded = [], raised = None\<rparr>
                          | Inl (HTTPError x) \<Rightarrow>
                              \<lparr>sessions = sv, replies = [Invalid_login (literal_for lang_code)],
                               requests = reqs, forwarded = [], raised = None\<rparr>
                          | Inl e \<Rightarrow>
                              \<lparr>sessions = sv,
                               replies = [Login_error (literal_for lang_code) (str_exn e)],
                               requests = reqs, forwarded = [], raised = None\<rparr>))
                | cs \<Rightarrow>
                    \<lparr>sessions = sv, replies = [Credentials_format (literal_for lang_code)],
                     requests = [], forwarded = [], raised = None\<rparr>)))"

definition all_messages_handler :: "store \<Rightarrow> http \<Rightarrow> real \<Rightarrow> message \<Rightarrow> handled" where
  "all_messages_handler sv net now m =
     (let user_query = msg_text m;
          session_data = get_session sv (session_key (from_user m));
          say = (\<lambda>r. \<lparr>sessions = sv, replies = r, requests = [], forwarded = [],
                       raised = None\<rparr>)
      in case session_data of
           None \<Rightarrow> say [Select_language_first]
         | Some s \<Rightarrow>
             if ''user_language'' \<notin> dom (state s)
                \<or> \<not> truthy (get (state s) ''user_language'')
             then say [Select_language_first]
             else if truthy (get (state s) ''awaiting_credentials'')
             then credentials_handler sv net now m
             else if ''bearer_token'' \<notin> dom (state s)
             then say [Login_first]
             else \<lparr>sessions = sv, replies = [Loading, Agent_answer], requests = [],
                   forwarded = [user_query], raised = None\<rparr>)"

section \<open>Predicates and examples for the properties\<close>

text \<open>The session of the sender of \<open>m\<close> is \<open>s\<close> and is waiting for credentials: these
  are the tests that \<open>all_messages_handler\<close> makes before it hands the message to
  \<open>credentials_handler\<close>.\<close>

definition awaiting :: "store \<Rightarrow> message \<Rightarrow> session \<Rightarrow> bool" where
  "awaiting sv m s =
     (get_session sv (session_key (from_user m)) = Some s
      \<and> ''user_language'' \<in> dom (state s)
      \<and> truthy (get (state s) ''user_language'')
      \<and> truthy (get (state s) ''awaiting_credentials''))"

text \<open>\<open>blank\<close>: the whitespace characters of one byte. \<open>plain\<close>: a byte that is not
  whitespace and does not begin a whitespace character of several bytes.\<close>

definition blank :: "char \<Rightarrow> bool" where
  "blank c = ((9 \<le> (of_char c :: nat) \<and> (of_char c :: nat) \<le> 13)
            \<or> (28 \<le> (of_char c :: nat) \<and> (of_char c :: nat) \<le> 32))"

definition plain :: "char \<Rightarrow> bool" where
  "plain c = (\<not> blank c \<and> (of_char c :: nat) \<notin> {0xC2, 0xE1, 0xE2, 0xE3})"

text \<open>Four remote sides: one that answers no request, one that refuses every request
  with status 401, one that answers every request with status 300 and a JSON body, and
  one that accepts the login of a user \<open>u1\<close> of merchant \<open>m1\<close> and branch \<open>b1\<close>,
  refreshes tokens, and answers every other request with status 200 and a JSON
  body.\<close>

definition offline :: http where
  "offline rq = Fails ''timed out''"

definition refusing :: http where
  "refusing rq =
     Responds \<lparr>status_code = 401, error_text = ''401 Client Error: Unauthorized'',
               body = Inr (JObj [(''message'', JStr ''unauthorized'')]),
               resp_cookies = Map.empty\<rparr>"

definition choices :: http where
  "choices rq =
     Responds \<lparr>status_code = 300, error_text = ''300 Multiple Choices'',
               body = Inr (JList [JStr ''a'', JStr ''b'']), resp_cookies = Map.empty\<rparr>"

definition accepting :: http where
  "accepting rq =
     (if url rq = ''https://dev.api.oy-gul.uz/api/auth/login'' then
        Responds \<lparr>status_code = 200, error_text = [],
                  body = Inr (JObj [(''data'', JObj [(''userId'', JStr ''u1''),
                                                     (''token'', JStr ''jwt'')])]),
                  resp_cookies = [''refreshToken'' \<mapsto> ''ref'']\<rparr>
      else if url rq = ''https://dev.api.oy-gul.uz/api/auth/refresh'' then
        Responds \<lparr>status_code = 200, error_text = [],
                  body = Inr (JObj [(''data'', JObj [(''token'', JStr ''jwt2'')])]),
                  resp_cookies = [''refreshToken'' \<mapsto> ''ref2'']\<rparr>
      else if url rq = ''https://dev.api.oy-gul.uz/api/auth/users/u1'' then
        Responds \<lparr>status_code = 200, error_text = [],
                  body = Inr (JObj [(''merchantId'', JStr ''m1''), (''branchId'', JStr ''b1'')]),
                  resp_cookies = Map.empty\<rparr>
      else
        Responds \<lparr>status_code = 200, error_text = [],
                  body = Inr (JObj [(''data'', JList [])]), resp_cookies = Map.empty\<rparr>)"

text \<open>The contract of the tools that end in \<open>return response.json()\<close>: whenever the
  tool has sent a request, it returns the decoded body of the response, or, when the
  request, \<open>raise_for_status\<close> or the decoding raises, the error record with that
  exception's text. \<open>removes\<close> is the contract of the delete tools, which return a
  record of their own on success.\<close>

definition answers :: "string \<Rightarrow> http \<Rightarrow> run \<Rightarrow> bool" where
  "answers prefix net r =
     (\<forall>rq \<in> set (sent r).
        returned r = Inr (case fetch_json net rq of
                            Inl e \<Rightarrow> error_record prefix e
                          | Inr v \<Rightarrow> v))"

definition removes :: "string \<Rightarrow> string \<Rightarrow> http \<Rightarrow> run \<Rightarrow> bool" where
  "removes prefix msg net r =
     (\<forall>rq \<in> set (sent r).
        returned r = Inr (case fetch_status net rq of
                            Inl e \<Rightarrow> error_record prefix e
                          | Inr resp \<Rightarrow> JObj [(''status'', JStr ''success''),
                                              (''message'', JStr msg)]))"

text \<open>Every call of the computation that fails makes the computation raise the
  exception of that call: the exception of the request or of \<open>raise_for_status\<close> is
  not caught.\<close>

definition lets_through :: "http \<Rightarrow> 'a io \<Rightarrow> bool" where
  "lets_through net m =
     (\<forall>rq \<in> set (snd m). \<forall>e. fetch_status net rq = Inl e \<longrightarrow> fst m = Inl e)"

text \<open>No request that the run has sent carries the query parameter \<open>k\<close>; every
  request that the run has sent carries the query parameter \<open>k\<close> with the value
  \<open>v\<close>.\<close>

definition omits :: "string \<Rightarrow> run \<Rightarrow> bool" where
  "omits k r = (\<forall>rq \<in> set (sent r). k \<notin> fst ` set (params rq))"

definition passes :: "string \<Rightarrow> json \<Rightarrow> run \<Rightarrow> bool" where
  "passes k v r = (\<forall>rq \<in> set (sent r). (k, v) \<in> set (params rq))"

text \<open>The run has sent one request, with the header \<open>Authorization: Bearer None\<close>; the
  run has sent one request, without any header.\<close>

definition proceeds :: "run \<Rightarrow> bool" where
  "proceeds r = (\<exists>rq. sent r = [rq] \<and> hd (headers rq) = Bearer JNull)"

definition bare :: "run \<Rightarrow> bool" where
  "bare r = (\<exists>rq. sent r = [rq] \<and> headers rq = [])"

text \<open>The session state of a user who has logged in, and the same state without the
  bearer token.\<close>

definition shop :: state where
  "shop = [''user_id'' \<mapsto> JStr ''u1'', ''merchant_id'' \<mapsto> JStr ''m1'',
           ''branch_id'' \<mapsto> JStr ''b1'', ''bearer_token'' \<mapsto> JStr ''jwt'',
           ''user_language'' \<mapsto> JStr ''en'']"

definition guest :: state where
  "guest = [''user_id'' \<mapsto> JStr ''u1'', ''merchant_id'' \<mapsto> JStr ''m1'',
            ''branch_id'' \<mapsto> JStr ''b1'', ''user_language'' \<mapsto> JStr ''en'']"

text \<open>The session of user 42 after the choice of Russian, and two messages of that
  user.\<close>

definition ru_session :: session where
  "ru_session =
     \<lparr>state = [''user_language'' \<mapsto> JStr ''ru'', ''awaiting_credentials'' \<mapsto> JBool True],
      events = []\<rparr>"

definition ru_sessions :: store where
  "ru_sessions = [session_key ''42'' \<mapsto> ru_session]"

definition alice :: message where
  "alice = \<lparr>from_user = ''42'', msg_text = Some ''alice secret''\<rparr>"

definition hello :: message where
  "hello = \<lparr>from_user = ''42'', msg_text = Some ''hello''\<rparr>"

text \<open>The same user writing login and password with a tab and a newline between them
  and spaces around them.\<close>

definition alice_tabs :: message where
  "alice_tabs =
     \<lparr>from_user = ''42'',
      msg_text = Some ('' alice'' @ [CHR 0x09, CHR 0x0A] @ ''secret  '')\<rparr>"

text \<open>The choice of Russian by user 42; a store in which that user has logged in
  before; and a store in which the session of that user waits for nothing and holds no
  bearer token.\<close>

definition pick_ru :: callback_query where
  "pick_ru = \<lparr>cb_from_user = ''42'', data = Some ''lang_ru''\<rparr>"

definition logged_in :: store where
  "logged_in =
     [session_key ''42'' \<mapsto>
        \<lparr>state = [''user_language'' \<mapsto> JStr ''en'', ''awaiting_credentials'' \<mapsto> JBool False,
                  ''user_id'' \<mapsto> JStr ''u1'', ''merchant_id'' \<mapsto> JStr ''m1'',
                  ''branch_id'' \<mapsto> JStr ''b1'', ''bearer_token'' \<mapsto> JStr ''jwt'',
                  ''refresh_token'' \<mapsto> JStr ''ref''],
         events = [login_event 0 [(''awaiting_credentials'', JBool False)]]\<rparr>]"

definition no_token_session :: session where
  "no_token_session =
     \<lparr>state = [''user_language'' \<mapsto> JStr ''ru'', ''awaiting_credentials'' \<mapsto> JBool False],
      events = []\<rparr>"

definition no_token :: store where
  "no_token = [session_key ''42'' \<mapsto> no_token_session]"

section \<open>Properties of the tool layer\<close>

subsection \<open>The order-listing tool and its status argument\<close>

lemma join_statuses: "join '', '' statuses = ''PENDING, FAILED, CANCELED, REFUND, SUCCESSFUL''"
  by (simp add: statuses_def)

lemma upper_shipped: "ascii_upper ''shipped'' = ''SHIPPED''"
  by code_simp

lemma upper_pending: "ascii_upper ''pending'' = ''PENDING''"
  by code_simp

text \<open>
  Claim C9, as amended. \<open>get_orders_by_status\<close> upper-cases its status first,
  with \<open>str.upper\<close>; the theorem holds for every case mapping \<open>upper\<close>, and so for
  that of Python. When the upper-cased status is not one of PENDING, FAILED, CANCELED,
  REFUND, SUCCESSFUL, the tool returns the error record whose message is the fixed
  English text \<open>Failed to get orders: Invalid status: <STATUS>. Valid statuses
  are: ...\<close>, with the upper-cased status in it, whatever the session state (and so
  whatever the session language), sends no HTTP request and leaves the session state as
  it was.
\<close>

theorem get_orders_by_status_invalid:
  assumes "upper status \<notin> set statuses"
  shows "get_orders_by_status upper status st net page limit =
           \<lparr>returned = Inr (JObj [(''status'', JStr ''error''),
              (''error_message'', JStr (''Failed to get orders: Invalid status: '' @ upper status
                 @ ''. Valid statuses are: PENDING, FAILED, CANCELED, REFUND, SUCCESSFUL''))]),
            sent = [], ctx = st\<rparr>"
  using assms
  by (simp add: get_orders_by_status_def try_fetch_def error_record_def invalid_status_def
      join_statuses Let_def)

text \<open>The amended claim at the status \<open>shipped\<close>, in a session whose language is
  Russian: the message is the English one.\<close>

theorem get_orders_by_status_invalid_witness:
  "ascii_upper ''shipped'' \<notin> set statuses \<and>
   get_orders_by_status ascii_upper ''shipped'' [''user_language'' \<mapsto> JStr ''ru''] offline Omitted Omitted =
     \<lparr>returned = Inr (JObj [(''status'', JStr ''error''),
        (''error_message'', JStr ''Failed to get orders: Invalid status: SHIPPED. Valid statuses are: PENDING, FAILED, CANCELED, REFUND, SUCCESSFUL'')]),
      sent = [], ctx = [''user_language'' \<mapsto> JStr ''ru'']\<rparr>"
proof -
  have h: "ascii_upper ''shipped'' \<notin> set statuses"
    by (simp add: upper_shipped statuses_def)
  show ?thesis
    using h get_orders_by_status_invalid
      [where upper = ascii_upper and status = "''shipped''"
         and st = "[''user_language'' \<mapsto> JStr ''ru'']" and net = offline
         and page = Omitted and limit = Omitted, OF h]
    by (simp add: upper_shipped)
qed

text \<open>Claim C9 as stated fails: the status \<open>pending\<close> is outside the valid set, and the
  request is sent all the same, with the status in upper case.\<close>

theorem get_orders_by_status_counterexample:
  "''pending'' \<notin> set statuses \<and>
   sent (get_orders_by_status ascii_upper ''pending'' [''bearer_token'' \<mapsto> JStr ''t''] offline
           Omitted Omitted) =
     [\<lparr>http_method = ''GET'', url = ''https://dev.api.oy-gul.uz/api/transaction/orders'',
       params = [(''page'', JInt 1), (''limit'', JInt 20),
                 (''transactionStatus'', JStr ''PENDING'')],
       payload = None, headers = [Bearer (JStr ''t'')], cookies = [], timeout = 10\<rparr>]"
  by (simp add: get_orders_by_status_def try_fetch_def upper_pending statuses_def Let_def
      and_then_def item_def opt_def base_def)

subsection \<open>Optional arguments and query parameters\<close>

lemma sent_try_fetch:
  "rq \<in> set (sent (try_fetch p st net prep)) \<Longrightarrow> prep = Inr rq"
  by (auto simp: try_fetch_def split: sum.splits)

lemma and_then_Inr:
  "and_then m f = Inr y \<Longrightarrow> \<exists>v. m = Inr v \<and> f v = Inr y"
  by (auto simp: and_then_def split: sum.splits)

lemma keys_put_opt: "fst ` set (put_opt k f v) = (if v = None then {} else {k})"
  by (cases v) (simp_all add: put_opt_def)

lemma keys_put_json: "fst ` set (put_json k v) = (if v = JNull then {} else {k})"
  by (simp add: put_json_def)

lemma keys_list_params:
  "fst ` set (list_params m b search tids ids lang page limit srt) =
     {''merchant_id'', ''branch_id''}
     \<union> (if search = None then {} else {''search''})
     \<union> (if tids = None then {} else {''type_id''})
     \<union> (if ids = None then {} else {''id''})
     \<union> (if lang = JNull then {} else {''lang''})
     \<union> (if page = None then {} else {''page''})
     \<union> (if limit = None then {} else {''limit''})
     \<union> (if srt = None then {} else {''sort''})"
  unfolding list_params_def set_append image_Un keys_put_opt keys_put_json
  by (simp only: Un_assoc list.set image_insert image_empty fst_conv)

lemma sort_list_params:
  "(''sort'', JStr s) \<in> set (list_params m b search tids ids lang page limit (Some s))"
  by (simp add: list_params_def put_opt_def)

lemma sent_two_items:
  assumes "rq \<in> set (sent (try_fetch p st net
             (and_then (item st k1) (\<lambda>a. and_then (item st k2) (\<lambda>b. Inr (f a b))))))"
  shows "\<exists>a b. rq = f a b"
proof -
  have "and_then (item st k1) (\<lambda>a. and_then (item st k2) (\<lambda>b. Inr (f a b))) = Inr rq"
    using assms by (rule sent_try_fetch)
  then show ?thesis
    by (cases "item st k1"; cases "item st k2") (auto simp: and_then_def)
qed

lemma list_tool_keys:
  assumes "rq \<in> set (sent (try_fetch p st net
             (and_then (item st ''merchant_id'') (\<lambda>m. and_then (item st ''branch_id'') (\<lambda>b.
                Inr \<lparr>http_method = meth, url = u,
                     params = list_params m b search tids ids lang page limit srt,
                     payload = pl, headers = hs, cookies = cs, timeout = tm\<rparr>)))))"
  shows "fst ` set (params rq) =
     {''merchant_id'', ''branch_id''}
     \<union> (if search = None then {} else {''search''})
     \<union> (if tids = None then {} else {''type_id''})
     \<union> (if ids = None then {} else {''id''})
     \<union> (if lang = JNull then {} else {''lang''})
     \<union> (if page = None then {} else {''page''})
     \<union> (if limit = None then {} else {''limit''})
     \<union> (if srt = None then {} else {''sort''})"
    and "srt = Some s \<Longrightarrow> (''sort'', JStr s) \<in> set (params rq)"
proof -
  obtain m b where "rq = \<lparr>http_method = meth, url = u,
                     params = list_params m b search tids ids lang page limit srt,
                     payload = pl, headers = hs, cookies = cs, timeout = tm\<rparr>"
    using sent_two_items [OF assms] by blast
  then have p: "params rq = list_params m b search tids ids lang page limit srt"
    by simp
  show "fst ` set (params rq) =
     {''merchant_id'', ''branch_id''}
     \<union> (if search = None then {} else {''search''})
     \<union> (if tids = None then {} else {''type_id''})
     \<union> (if ids = None then {} else {''id''})
     \<union> (if lang = JNull then {} else {''lang''})
     \<union> (if page = None then {} else {''page''})
     \<union> (if limit = None then {} else {''limit''})
     \<union> (if srt = None then {} else {''sort''})"
    by (simp only: p keys_list_params)
  show "srt = Some s \<Longrightarrow> (''sort'', JStr s) \<in> set (params rq)"
    by (simp add: p sort_list_params)
qed

lemma get_flowers_omits:
  "omits ''search'' (get_flowers st net Omitted tids ids page limit srt)"
  "omits ''type_id'' (get_flowers st net search Omitted ids page limit srt)"
  "omits ''id'' (get_flowers st net search tids Omitted page limit srt)"
  "omits ''page'' (get_flowers st net search tids ids Omitted limit srt)"
  "omits ''limit'' (get_flowers st net search tids ids page Omitted srt)"
  "passes ''sort'' (JStr ''updatedAt-desc'')
     (get_flowers st net search tids ids page limit Omitted)"
  unfolding omits_def passes_def get_flowers_def
  by (simp_all add: list_tool_keys opt_def sort_default_def)

lemma get_bouquets_omits:
  "omits ''search'' (get_bouquets st net Omitted tids ids lang page limit srt)"
  "omits ''type_id'' (get_bouquets st net search Omitted ids lang page limit srt)"
  "omits ''id'' (get_bouquets st net search tids Omitted lang page limit srt)"
  "omits ''lang'' (get_bouquets st net search tids ids Omitted page limit srt)"
  "omits ''page'' (get_bouquets st net search tids ids lang Omitted limit srt)"
  "omits ''limit'' (get_bouquets st net search tids ids lang page Omitted srt)"
  "passes ''sort'' (JStr ''updatedAt-desc'')
     (get_bouquets st net search tids ids lang page limit Omitted)"
  unfolding omits_def passes_def get_bouquets_def
  by (simp_all add: list_tool_keys opt_def sort_default_def of_opt_def)

lemma get_consumables_omits:
  "omits ''search'' (get_consumables st net Omitted tids ids page limit srt)"
  "omits ''type_id'' (get_consumables st net search Omitted ids page limit srt)"
  "omits ''id'' (get_consumables st net search tids Omitted page limit srt)"
  "omits ''page'' (get_consumables st net search tids ids Omitted limit srt)"
  "omits ''limit'' (get_consumables st net search tids ids page Omitted srt)"
  "passes ''sort'' (JStr ''updatedAt-desc'')
     (get_consumables st net search tids ids page limit Omitted)"
  unfolding omits_def passes_def get_consumables_def
  by (simp_all add: list_tool_keys opt_def sort_default_def)

lemma keys_put_str:
  "fst ` set (put_str k v) = (if v = None \<or> v = Some [] then {} else {k})"
  by (cases v) (simp_all add: put_str_def)

lemma keys_tags:
  "fst ` set (case v of None \<Rightarrow> []
              | Some ts \<Rightarrow> if ts = [] then [] else [(''tags'', JStr (join '','' ts))]) =
     (if v = None \<or> v = Some [] then {} else {''tags''})"
  by (cases v) simp_all

lemma search_feed_sent:
  "sent (search_feed st net page limit product_type search min_price max_price srt
           has_discount tags) =
     [\<lparr>http_method = ''GET'', url = base @ ''/content/feed'',
       params =
         [(''page'', JInt (case opt page of None \<Rightarrow> 1 | Some p \<Rightarrow> p)),
          (''limit'', JInt (case opt limit of None \<Rightarrow> 20 | Some l \<Rightarrow> l)),
          (''lang'', get_or st ''user_language'' (JStr ''ru''))]
         @ (if truthy (get st ''merchant_id'') then [(''merchant_id'', get st ''merchant_id'')]
            else [])
         @ put_str ''product_type'' (opt product_type)
         @ put_str ''search'' (opt search)
         @ put_opt ''min_price'' JInt (opt min_price)
         @ put_opt ''max_price'' JInt (opt max_price)
         @ put_str ''sort'' (opt srt)
         @ put_opt ''has_discount'' (\<lambda>b. JStr (lower_bool b)) (opt has_discount)
         @ (case opt tags of
              None \<Rightarrow> []
            | Some ts \<Rightarrow> if ts = [] then [] else [(''tags'', JStr (join '','' ts))]),
       payload = None, headers = [], cookies = [], timeout = 10\<rparr>]"
  by (simp add: search_feed_def try_fetch_def Let_def)

lemma search_feed_keys:
  assumes "rq \<in> set (sent (search_feed st net page limit product_type search min_price
                              max_price srt has_discount tags))"
  shows "fst ` set (params rq) =
     {''page'', ''limit'', ''lang''}
     \<union> (if truthy (get st ''merchant_id'') then {''merchant_id''} else {})
     \<union> (if opt product_type = None \<or> opt product_type = Some [] then {}
         else {''product_type''})
     \<union> (if opt search = None \<or> opt search = Some [] then {} else {''search''})
     \<union> (if opt min_price = None then {} else {''min_price''})
     \<union> (if opt max_price = None then {} else {''max_price''})
     \<union> (if opt srt = None \<or> opt srt = Some [] then {} else {''sort''})
     \<union> (if opt has_discount = None then {} else {''has_discount''})
     \<union> (if opt tags = None \<or> opt tags = Some [] then {} else {''tags''})"
proof -
  have m: "fst ` set (if c then [(k, v)] else []) = (if c then {k} else {})"
    for c and k :: string and v :: json
    by simp
  show ?thesis
    using assms
    unfolding search_feed_sent
    by (simp only: list.set singleton_iff empty_iff insert_iff simp_thms request.simps
        set_append image_Un keys_put_opt keys_put_str keys_tags m Un_assoc image_insert
        image_empty fst_conv)
qed

lemma search_feed_omits:
  "omits ''product_type'' (search_feed st net page limit Omitted search min_price max_price
                             srt has_discount tags)"
  "omits ''search'' (search_feed st net page limit product_type Omitted min_price max_price
                       srt has_discount tags)"
  "omits ''min_price'' (search_feed st net page limit product_type search Omitted max_price
                          srt has_discount tags)"
  "omits ''max_price'' (search_feed st net page limit product_type search min_price Omitted
                          srt has_discount tags)"
  "omits ''sort'' (search_feed st net page limit product_type search min_price max_price
                     Omitted has_discount tags)"
  "omits ''has_discount'' (search_feed st net page limit product_type search min_price
                             max_price srt Omitted tags)"
  "omits ''tags'' (search_feed st net page limit product_type search min_price max_price
                     srt has_discount Omitted)"
  unfolding omits_def
  by (simp_all add: search_feed_keys opt_def)

lemma search_feed_defaults:
  "passes ''page'' (JInt 1) (search_feed st net Omitted limit product_type search min_price
                               max_price srt has_discount tags)"
  "passes ''limit'' (JInt 20) (search_feed st net page Omitted product_type search min_price
                                 max_price srt has_discount tags)"
  unfolding passes_def search_feed_sent
  by (simp_all add: opt_def)

lemma get_orders_params:
  assumes "rq \<in> set (sent (get_orders_by_status upper status st net page limit))"
  shows "params rq =
           [(''page'', (case opt page of Some p \<Rightarrow> JInt p | None \<Rightarrow> JInt 1)),
            (''limit'', (case opt limit of Some l \<Rightarrow> JInt l | None \<Rightarrow> JInt 20)),
            (''transactionStatus'', JStr (upper status))]"
proof -
  have "(if upper status \<notin> set statuses then Inl (invalid_status (upper status))
         else and_then (item st ''bearer_token'') (\<lambda>token.
                 Inr \<lparr>http_method = ''GET'', url = base @ ''/transaction/orders'',
                      params =
                        [(''page'', (case opt page of Some p \<Rightarrow> JInt p | None \<Rightarrow> JInt 1)),
                         (''limit'', (case opt limit of Some l \<Rightarrow> JInt l | None \<Rightarrow> JInt 20)),
                         (''transactionStatus'', JStr (upper status))],
                      payload = None, headers = [Bearer token], cookies = [],
                      timeout = 10\<rparr>)) = Inr rq"
    using assms unfolding get_orders_by_status_def Let_def by (rule sent_try_fetch)
  then show ?thesis
    by (cases "item st ''bearer_token''") (auto simp: and_then_def split: if_splits)
qed

lemma get_orders_defaults:
  "passes ''page'' (JInt 1) (get_orders_by_status upper status st net Omitted limit)"
  "passes ''limit'' (JInt 20) (get_orders_by_status upper status st net page Omitted)"
  unfolding passes_def
  by (simp_all add: get_orders_params opt_def)


text \<open>
  Claim C2, as amended. In the list and query tools, an optional argument that the
  caller leaves out is left out of the query parameters of the request: \<open>search\<close>,
  the type and id filters, \<open>page\<close> and \<open>limit\<close> in \<open>get_flowers\<close>, \<open>get_bouquets\<close> and
  \<open>get_consumables\<close>, \<open>lang\<close> in \<open>get_bouquets\<close>, and \<open>product_type\<close>, \<open>search\<close>,
  \<open>min_price\<close>, \<open>max_price\<close>, \<open>sort\<close>, \<open>has_discount\<close> and \<open>tags\<close> in \<open>search_feed\<close>.
  The parameters with a default are sent with it: \<open>sort = updatedAt-desc\<close> in the
  three list tools of the content service, \<open>page = 1\<close> and \<open>limit = 20\<close> in
  \<open>search_feed\<close> and \<open>get_orders_by_status\<close>.
\<close>

theorem unsupplied_parameters:
  "omits ''search'' (get_flowers st net Omitted tids ids page limit srt)
 \<and> omits ''type_id'' (get_flowers st net search Omitted ids page limit srt)
 \<and> omits ''id'' (get_flowers st net search tids Omitted page limit srt)
 \<and> omits ''page'' (get_flowers st net search tids ids Omitted limit srt)
 \<and> omits ''limit'' (get_flowers st net search tids ids page Omitted srt)
 \<and> passes ''sort'' (JStr ''updatedAt-desc'')
       (get_flowers st net search tids ids page limit Omitted)
 \<and> omits ''search'' (get_bouquets st net Omitted tids ids lang page limit srt)
 \<and> omits ''type_id'' (get_bouquets st net search Omitted ids lang page limit srt)
 \<and> omits ''id'' (get_bouquets st net search tids Omitted lang page limit srt)
 \<and> omits ''lang'' (get_bouquets st net search tids ids Omitted page limit srt)
 \<and> omits ''page'' (get_bouquets st net search tids ids lang Omitted limit srt)
 \<and> omits ''limit'' (get_bouquets st net search tids ids lang page Omitted srt)
 \<and> passes ''sort'' (JStr ''updatedAt-desc'')
       (get_bouquets st net search tids ids lang page limit Omitted)
 \<and> omits ''search'' (get_consumables st net Omitted tids ids page limit srt)
 \<and> omits ''type_id'' (get_consumables st net search Omitted ids page limit srt)
 \<and> omits ''id'' (get_consumables st net search tids Omitted page limit srt)
 \<and> omits ''page'' (get_consumables st net search tids ids Omitted limit srt)
 \<and> omits ''limit'' (get_consumables st net search tids ids page Omitted srt)
 \<and> passes ''sort'' (JStr ''updatedAt-desc'')
       (get_consumables st net search tids ids page limit Omitted)
 \<and> omits ''product_type'' (search_feed st net page limit Omitted search min_price max_price
                             srt has_discount tags)
 \<and> omits ''search'' (search_feed st net page limit product_type Omitted min_price max_price
                       srt has_discount tags)
 \<and> omits ''min_price'' (search_feed st net page limit product_type search Omitted max_price
                          srt has_discount tags)
 \<and> omits ''max_price'' (search_feed st net page limit product_type search min_price Omitted
                          srt has_discount tags)
 \<and> omits ''sort'' (search_feed st net page limit product_type search min_price max_price
                     Omitted has_discount tags)
 \<and> omits ''has_discount'' (search_feed st net page limit product_type search min_price
                             max_price srt Omitted tags)
 \<and> omits ''tags'' (search_feed st net page limit product_type search min_price max_price
                     srt has_discount Omitted)
 \<and> passes ''page'' (JInt 1) (search_feed st net Omitted limit product_type search min_price
                               max_price srt has_discount tags)
 \<and> passes ''limit'' (JInt 20) (search_feed st net page Omitted product_type search min_price
                                 max_price srt has_discount tags)
 \<and> passes ''page'' (JInt 1) (get_orders_by_status upper status st net Omitted limit)
 \<and> passes ''limit'' (JInt 20) (get_orders_by_status upper status st net page Omitted)"
  by (intro conjI get_flowers_omits get_bouquets_omits get_consumables_omits
      search_feed_omits search_feed_defaults get_orders_defaults)

lemma get_flowers_shop:
  "sent (get_flowers shop accepting Omitted Omitted Omitted Omitted Omitted Omitted) =
     [\<lparr>http_method = ''GET'', url = ''https://dev.api.oy-gul.uz/api/content/flowers'',
       params = [(''merchant_id'', JStr ''m1''), (''branch_id'', JStr ''b1''),
                 (''sort'', JStr ''updatedAt-desc'')],
       payload = None, headers = [Bearer (JStr ''jwt'')], cookies = [], timeout = 10\<rparr>]"
  by (simp add: get_flowers_def try_fetch_def and_then_def item_def shop_def base_def
      list_params_def put_opt_def put_json_def opt_def sort_default_def get_def get_or_def)

text \<open>Claim C2, as amended, at a call of \<open>get_flowers\<close> without optional arguments
  that does send its request.\<close>

theorem unsupplied_parameters_witness:
  "sent (get_flowers shop accepting Omitted Omitted Omitted Omitted Omitted Omitted) =
     [\<lparr>http_method = ''GET'', url = ''https://dev.api.oy-gul.uz/api/content/flowers'',
       params = [(''merchant_id'', JStr ''m1''), (''branch_id'', JStr ''b1''),
                 (''sort'', JStr ''updatedAt-desc'')],
       payload = None, headers = [Bearer (JStr ''jwt'')], cookies = [], timeout = 10\<rparr>]
   \<and> ''search'' \<notin> fst ` set (params (hd (sent
         (get_flowers shop accepting Omitted Omitted Omitted Omitted Omitted Omitted))))
   \<and> (''sort'', JStr ''updatedAt-desc'') \<in> set (params (hd (sent
         (get_flowers shop accepting Omitted Omitted Omitted Omitted Omitted Omitted))))"
proof -
  have a: "omits ''search''
             (get_flowers shop accepting Omitted Omitted Omitted Omitted Omitted Omitted)"
    and b: "passes ''sort'' (JStr ''updatedAt-desc'')
             (get_flowers shop accepting Omitted Omitted Omitted Omitted Omitted Omitted)"
    using unsupplied_parameters
      [of shop accepting Omitted Omitted Omitted Omitted Omitted Omitted]
    by blast+
  show ?thesis
    using a b unfolding omits_def passes_def get_flowers_shop by simp
qed

text \<open>Claim C2 as stated fails: called without optional arguments, the order-listing
  tool sends \<open>page\<close> and \<open>limit\<close>, \<open>get_flowers\<close> sends \<open>sort\<close>, and \<open>search_feed\<close>
  sends \<open>page\<close> and \<open>limit\<close>.\<close>

theorem unsupplied_parameters_counterexample:
  "sent (get_orders_by_status ascii_upper ''PENDING'' shop accepting Omitted Omitted) =
     [\<lparr>http_method = ''GET'', url = ''https://dev.api.oy-gul.uz/api/transaction/orders'',
       params = [(''page'', JInt 1), (''limit'', JInt 20),
                 (''transactionStatus'', JStr ''PENDING'')],
       payload = None, headers = [Bearer (JStr ''jwt'')], cookies = [], timeout = 10\<rparr>]
   \<and> sent (get_flowers shop accepting Omitted Omitted Omitted Omitted Omitted Omitted) =
     [\<lparr>http_method = ''GET'', url = ''https://dev.api.oy-gul.uz/api/content/flowers'',
       params = [(''merchant_id'', JStr ''m1''), (''branch_id'', JStr ''b1''),
                 (''sort'', JStr ''updatedAt-desc'')],
       payload = None, headers = [Bearer (JStr ''jwt'')], cookies = [], timeout = 10\<rparr>]
   \<and> sent (search_feed shop accepting Omitted Omitted Omitted Omitted Omitted Omitted Omitted
             Omitted Omitted) =
     [\<lparr>http_method = ''GET'', url = ''https://dev.api.oy-gul.uz/api/content/feed'',
       params = [(''page'', JInt 1), (''limit'', JInt 20), (''lang'', JStr ''en''),
                 (''merchant_id'', JStr ''m1'')],
       payload = None, headers = [], cookies = [], timeout = 10\<rparr>]"
proof -
  have up: "ascii_upper ''PENDING'' = ''PENDING''" by code_simp
  have o: "sent (get_orders_by_status ascii_upper ''PENDING'' shop accepting Omitted Omitted) =
     [\<lparr>http_method = ''GET'', url = ''https://dev.api.oy-gul.uz/api/transaction/orders'',
       params = [(''page'', JInt 1), (''limit'', JInt 20),
                 (''transactionStatus'', JStr ''PENDING'')],
       payload = None, headers = [Bearer (JStr ''jwt'')], cookies = [], timeout = 10\<rparr>]"
    by (simp add: get_orders_by_status_def try_fetch_def up statuses_def Let_def
        and_then_def item_def opt_def base_def shop_def)
  have f: "sent (search_feed shop accepting Omitted Omitted Omitted Omitted Omitted Omitted
             Omitted Omitted Omitted) =
     [\<lparr>http_method = ''GET'', url = ''https://dev.api.oy-gul.uz/api/content/feed'',
       params = [(''page'', JInt 1), (''limit'', JInt 20), (''lang'', JStr ''en''),
                 (''merchant_id'', JStr ''m1'')],
       payload = None, headers = [], cookies = [], timeout = 10\<rparr>]"
    by (simp add: search_feed_sent opt_def put_str_def put_opt_def shop_def get_def
        get_or_def base_def)
  show ?thesis
    using o f get_flowers_shop by simp
qed

subsection \<open>Results of the tools, and the missing bearer token\<close>

lemma answers_try_fetch: "answers p net (try_fetch p st net prep)"
  by (cases prep) (simp_all add: answers_def try_fetch_def)

lemma answers_fetch_after: "answers p net (fetch_after p st net prep)"
  by (cases prep) (simp_all add: answers_def fetch_after_def)

lemma removes_try_delete: "removes p msg net (try_delete p msg st net rq)"
  by (simp add: removes_def try_delete_def)

lemma fetch_json_outcomes:
  "fetch_json net rq =
     (case net rq of
        Fails t \<Rightarrow> Inl (RequestException t)
      | Responds r \<Rightarrow>
          if 400 \<le> status_code r \<and> status_code r < 600 then Inl (HTTPError (error_text r))
          else (case body r of Inl t \<Rightarrow> Inl (JSONDecodeError t) | Inr v \<Rightarrow> Inr v))"
  by (simp add: fetch_json_def send_def raise_for_status_def response_json_def
      split: outcome.splits)

lemma lets_call: "lets_through net (call net rq)"
  by (simp add: lets_through_def call_def)

lemma lets_pure: "lets_through net (pure x)"
  by (simp add: lets_through_def pure_def)

lemma lets_bind:
  assumes "lets_through net m" and "\<And>v. lets_through net (f v)"
  shows "lets_through net (io_bind m f)"
proof (cases m)
  case (Pair r l)
  show ?thesis
  proof (cases r)
    case (Inl e)
    then show ?thesis
      using assms(1) Pair by (simp add: lets_through_def io_bind_def)
  next
    case (Inr v)
    obtain r' l' where f: "f v = (r', l')" by (cases "f v")
    have none: "\<forall>rq \<in> set l. \<forall>e. fetch_status net rq \<noteq> Inl e"
      using assms(1) Pair Inr by (auto simp: lets_through_def)
    show ?thesis
      using assms(2) [of v] none Pair Inr f
      by (auto simp: lets_through_def io_bind_def)
  qed
qed

lemma lets_get_user: "lets_through net (get_user net u t)"
  unfolding get_user_def by (intro lets_bind lets_call lets_pure)

lemma lets_get_branch: "lets_through net (get_branch_id_by_merchant_id net m t)"
  unfolding get_branch_id_by_merchant_id_def by (intro lets_bind lets_call lets_pure)

lemma lets_login: "lets_through net (login net a b)"
  unfolding login_def
  by (intro lets_bind lets_call lets_pure lets_get_user) (simp add: lets_pure lets_get_branch)

lemma refresh_token_fails:
  assumes "fetch_status net
             \<lparr>http_method = ''POST'', url = ''https://dev.api.oy-gul.uz/api/auth/refresh'',
              params = [], payload = None, headers = [],
              cookies = [(''refreshToken'', token)], timeout = 10\<rparr> = Inl e"
  shows "refresh_token token st net =
           \<lparr>returned = Inr (JObj [(''status'', JStr ''error''),
              (''message'', JStr (''error while refreshing the token '' @ str_exn e))]),
            sent = [\<lparr>http_method = ''POST'',
                     url = ''https://dev.api.oy-gul.uz/api/auth/refresh'',
                     params = [], payload = None, headers = [],
                     cookies = [(''refreshToken'', token)], timeout = 10\<rparr>],
            ctx = st\<rparr>"
  using assms by (simp add: refresh_token_def Let_def and_then_def base_def)

lemma refresh_token_answered:
  assumes "fetch_status net
             \<lparr>http_method = ''POST'', url = ''https://dev.api.oy-gul.uz/api/auth/refresh'',
              params = [], payload = None, headers = [],
              cookies = [(''refreshToken'', token)], timeout = 10\<rparr> = Inr r"
  shows "refresh_token token st net =
           (case and_then (response_json r) (\<lambda>b.
                 and_then (subscript b ''data'') (\<lambda>d. subscript d ''token'')) of
              Inl e \<Rightarrow>
                \<lparr>returned = Inr (JObj [(''status'', JStr ''error''),
                   (''message'', JStr (''error while refreshing the token '' @ str_exn e))]),
                 sent = [\<lparr>http_method = ''POST'',
                          url = ''https://dev.api.oy-gul.uz/api/auth/refresh'',
                          params = [], payload = None, headers = [],
                          cookies = [(''refreshToken'', token)], timeout = 10\<rparr>],
                 ctx = st\<rparr>
            | Inr t \<Rightarrow>
                \<lparr>returned = Inr JNull,
                 sent = [\<lparr>http_method = ''POST'',
                          url = ''https://dev.api.oy-gul.uz/api/auth/refresh'',
                          params = [], payload = None, headers = [],
                          cookies = [(''refreshToken'', token)], timeout = 10\<rparr>],
                 ctx = st(''refresh_token'' \<mapsto>
                            (case resp_cookies r ''refreshToken'' of
                               None \<Rightarrow> JNull | Some c \<Rightarrow> JStr c),
                          ''bearer_token'' \<mapsto> t)\<rparr>)"
  using assms
  by (simp add: refresh_token_def Let_def and_then_def base_def of_opt_def
      split: sum.splits)

lemma login_raises:
  "fetch_status net
     \<lparr>http_method = ''POST'', url = ''https://dev.api.oy-gul.uz/api/auth/login'',
          params = [],
          payload = Some (JObj [(''login'', JStr a), (''password'', JStr b)]),
          headers = [], cookies = [], timeout = 10\<rparr> = Inl e \<Longrightarrow>
   login net a b =
     (Inl e,
      [\<lparr>http_method = ''POST'', url = ''https://dev.api.oy-gul.uz/api/auth/login'',
          params = [],
          payload = Some (JObj [(''login'', JStr a), (''password'', JStr b)]),
          headers = [], cookies = [], timeout = 10\<rparr>])"
  by (simp add: login_def io_bind_def call_def login_request_def base_def)

text \<open>
  Claim C1, as amended. Each of the twenty tools that end in \<open>return response.json()\<close>,
  once it has sent its request, returns the decoded body of the response as it is, or,
  when the call fails, the error record \<open>{status: "error", error_message: <prefix and
  text of the exception>}\<close>, and raises nothing. The call fails when the request gets no
  response, when the status is between 400 and 599, or when the body does not decode.
  The three delete tools return the same error record on failure and a record of
  their own, \<open>{status: "success", message: ...}\<close>, on success. \<open>refresh_token\<close>: when
  its call fails, or the response has no \<open>["data"]["token"]\<close>, it returns the record
  \<open>{status: "error", message: <text of the exception>}\<close> and leaves the session state
  as it was; otherwise it returns \<open>None\<close>, and the state holds the token of the response
  as \<open>bearer_token\<close> and the cookie \<open>refreshToken\<close> of the response as
  \<open>refresh_token\<close>. \<open>login\<close>, the client function of the bot, raises to its caller
  the exception of any of its calls that fails.
\<close>

theorem tool_results:
  "answers ''Failed to create order: '' net
     (create_order products payment_type gift_card_note st net)
 \<and> answers ''Failed to get payment types: '' net (get_payment_types st net)
 \<and> answers ''Failed to get orders: '' net (get_orders_by_status upper status st net page limit)
 \<and> answers ''Failed to confirm order: '' net (confirm_order order_id st net)
 \<and> answers ''Failed to cancel order: '' net (cancel_order order_id st net)
 \<and> answers ''Failed to create flower (master): '' net
       (create_flower_master name description quantity unit_cost price sold_separately
          sold_online photo_urls st net)
 \<and> answers ''Failed to get flowers: '' net
       (get_flowers st net search type_ids ids page limit srt)
 \<and> answers ''Failed to update flower master: '' net
       (update_flower st net flower_id quantity price_arg separately online)
 \<and> answers ''Failed to update flower (master): '' net
       (update_flower_type st net type_id name_arg description_arg photos_arg)
 \<and> answers ''Failed to create bouquet (master): '' net
       (create_bouquet_master name description price sold_online photo_urls tags spent st net)
 \<and> answers ''Failed to get bouquets: '' net
       (get_bouquets st net search type_ids ids lang page limit srt)
 \<and> answers ''Failed to update bouquet: '' net
       (update_bouquet st net bouquet_id quantity_arg price_arg online)
 \<and> answers ''Failed to update bouquet type: '' net
       (update_bouquet_type st net type_id name_arg description_arg tags_arg photos_arg
          spent_arg)
 \<and> answers ''Failed to create consumable (master): '' net
       (create_consumable_master st net name measurement_type_id amount cost photos)
 \<and> answers ''Failed to get consumables: '' net
       (get_consumables st net search type_ids ids page limit srt)
 \<and> answers ''Failed to update consumable: '' net
       (update_consumable st net consumable_id amount)
 \<and> answers ''Failed to update consumable type: '' net
       (update_consumable_type st net type_id name_arg measurement_arg photos_arg)
 \<and> answers ''Failed to get measurement types: '' net (get_all_measurement_types st net)
 \<and> answers ''Failed to create supply: '' net
       (create_supply now st net quantity unit_cost product_type product_id)
 \<and> answers ''Failed to search feed: '' net
       (search_feed st net page limit product_arg search min_price max_price srt has_discount
          tag_list)
 \<and> removes ''Failed to delete flower_type: ''
       (''flower_type '' @ type_id @ '' deleted successfully.'') net
       (delete_flower_type type_id st net)
 \<and> removes ''Failed to delete bouquet_type: ''
       (''bouquet_type '' @ type_id @ '' deleted successfully.'') net
       (delete_bouquet_type type_id st net)
 \<and> removes ''Failed to delete consumable_type: ''
       (''consumable_type '' @ type_id @ '' deleted successfully.'') net
       (delete_consumable_type type_id st net)
 \<and> fetch_json net rq =
       (case net rq of
          Fails t \<Rightarrow> Inl (RequestException t)
        | Responds r \<Rightarrow>
            if 400 \<le> status_code r \<and> status_code r < 600 then Inl (HTTPError (error_text r))
            else (case body r of Inl t \<Rightarrow> Inl (JSONDecodeError t) | Inr v \<Rightarrow> Inr v))
 \<and> (\<forall>e. fetch_status net
         \<lparr>http_method = ''POST'', url = ''https://dev.api.oy-gul.uz/api/auth/refresh'',
          params = [], payload = None, headers = [],
          cookies = [(''refreshToken'', token)], timeout = 10\<rparr> = Inl e \<longrightarrow>
        refresh_token token st net =
          \<lparr>returned = Inr (JObj [(''status'', JStr ''error''),
             (''message'', JStr (''error while refreshing the token '' @ str_exn e))]),
           sent = [\<lparr>http_method = ''POST'', url = ''https://dev.api.oy-gul.uz/api/auth/refresh'',
          params = [], payload = None, headers = [],
          cookies = [(''refreshToken'', token)], timeout = 10\<rparr>],
           ctx = st\<rparr>)
 \<and> (\<forall>r. fetch_status net
         \<lparr>http_method = ''POST'', url = ''https://dev.api.oy-gul.uz/api/auth/refresh'',
          params = [], payload = None, headers = [],
          cookies = [(''refreshToken'', token)], timeout = 10\<rparr> = Inr r \<longrightarrow>
        refresh_token token st net =
          (case and_then (response_json r) (\<lambda>b.
                and_then (subscript b ''data'') (\<lambda>d. subscript d ''token'')) of
             Inl e \<Rightarrow>
               \<lparr>returned = Inr (JObj [(''status'', JStr ''error''),
             (''message'', JStr (''error while refreshing the token '' @ str_exn e))]),
           sent = [\<lparr>http_method = ''POST'', url = ''https://dev.api.oy-gul.uz/api/auth/refresh'',
          params = [], payload = None, headers = [],
          cookies = [(''refreshToken'', token)], timeout = 10\<rparr>],
           ctx = st\<rparr>
           | Inr t \<Rightarrow>
               \<lparr>returned = Inr JNull,
                sent = [\<lparr>http_method = ''POST'', url = ''https://dev.api.oy-gul.uz/api/auth/refresh'',
          params = [], payload = None, headers = [],
          cookies = [(''refreshToken'', token)], timeout = 10\<rparr>],
                ctx = st(''refresh_token'' \<mapsto>
                           (case resp_cookies r ''refreshToken'' of
                              None \<Rightarrow> JNull | Some c \<Rightarrow> JStr c),
                         ''bearer_token'' \<mapsto> t)\<rparr>))
 \<and> lets_through net (login net a b)
 \<and> (\<forall>e. fetch_status net
         \<lparr>http_method = ''POST'', url = ''https://dev.api.oy-gul.uz/api/auth/login'',
          params = [],
          payload = Some (JObj [(''login'', JStr a), (''password'', JStr b)]),
          headers = [], cookies = [], timeout = 10\<rparr> = Inl e \<longrightarrow>
        login net a b =
          (Inl e,
           [\<lparr>http_method = ''POST'', url = ''https://dev.api.oy-gul.uz/api/auth/login'',
          params = [],
          payload = Some (JObj [(''login'', JStr a), (''password'', JStr b)]),
          headers = [], cookies = [], timeout = 10\<rparr>]))"
proof (intro conjI)
  show "answers ''Failed to get orders: '' net (get_orders_by_status upper status st net page limit)"
    unfolding get_orders_by_status_def Let_def by (rule answers_try_fetch)
  show "answers ''Failed to search feed: '' net
       (search_feed st net page limit product_arg search min_price max_price srt has_discount
          tag_list)"
    unfolding search_feed_def Let_def by (rule answers_try_fetch)
  show "answers ''Failed to confirm order: '' net (confirm_order order_id st net)"
    unfolding confirm_order_def Let_def by (rule answers_fetch_after)
  show "fetch_json net rq =
       (case net rq of
          Fails t \<Rightarrow> Inl (RequestException t)
        | Responds r \<Rightarrow>
            if 400 \<le> status_code r \<and> status_code r < 600 then Inl (HTTPError (error_text r))
            else (case body r of Inl t \<Rightarrow> Inl (JSONDecodeError t) | Inr v \<Rightarrow> Inr v))"
    by (rule fetch_json_outcomes)
  show "\<forall>e. fetch_status net
         \<lparr>http_method = ''POST'', url = ''https://dev.api.oy-gul.uz/api/auth/refresh'',
          params = [], payload = None, headers = [],
          cookies = [(''refreshToken'', token)], timeout = 10\<rparr> = Inl e \<longrightarrow>
        refresh_token token st net =
          \<lparr>returned = Inr (JObj [(''status'', JStr ''error''),
             (''message'', JStr (''error while refreshing the token '' @ str_exn e))]),
           sent = [\<lparr>http_method = ''POST'', url = ''https://dev.api.oy-gul.uz/api/auth/refresh'',
          params = [], payload = None, headers = [],
          cookies = [(''refreshToken'', token)], timeout = 10\<rparr>],
           ctx = st\<rparr>"
    by (intro allI impI) (rule refresh_token_fails)
  show "\<forall>r. fetch_status net
         \<lparr>http_method = ''POST'', url = ''https://dev.api.oy-gul.uz/api/auth/refresh'',
          params = [], payload = None, headers = [],
          cookies = [(''refreshToken'', token)], timeout = 10\<rparr> = Inr r \<longrightarrow>
        refresh_token token st net =
          (case and_then (response_json r) (\<lambda>b.
                and_then (subscript b ''data'') (\<lambda>d. subscript d ''token'')) of
             Inl e \<Rightarrow>
               \<lparr>returned = Inr (JObj [(''status'', JStr ''error''),
             (''message'', JStr (''error while refreshing the token '' @ str_exn e))]),
           sent = [\<lparr>http_method = ''POST'', url = ''https://dev.api.oy-gul.uz/api/auth/refresh'',
          params = [], payload = None, headers = [],
          cookies = [(''refreshToken'', token)], timeout = 10\<rparr>],
           ctx = st\<rparr>
           | Inr t \<Rightarrow>
               \<lparr>returned = Inr JNull,
                sent = [\<lparr>http_method = ''POST'', url = ''https://dev.api.oy-gul.uz/api/auth/refresh'',
          params = [], payload = None, headers = [],
          cookies = [(''refreshToken'', token)], timeout = 10\<rparr>],
                ctx = st(''refresh_token'' \<mapsto>
                           (case resp_cookies r ''refreshToken'' of
                              None \<Rightarrow> JNull | Some c \<Rightarrow> JStr c),
                         ''bearer_token'' \<mapsto> t)\<rparr>)"
    by (intro allI impI) (rule refresh_token_answered)
  show "lets_through net (login net a b)"
    by (rule lets_login)
  show "\<forall>e. fetch_status net
         \<lparr>http_method = ''POST'', url = ''https://dev.api.oy-gul.uz/api/auth/login'',
          params = [],
          payload = Some (JObj [(''login'', JStr a), (''password'', JStr b)]),
          headers = [], cookies = [], timeout = 10\<rparr> = Inl e \<longrightarrow>
        login net a b =
          (Inl e,
           [\<lparr>http_method = ''POST'', url = ''https://dev.api.oy-gul.uz/api/auth/login'',
          params = [],
          payload = Some (JObj [(''login'', JStr a), (''password'', JStr b)]),
          headers = [], cookies = [], timeout = 10\<rparr>])"
    by (intro allI impI) (rule login_raises)
qed (unfold create_order_def get_payment_types_def cancel_order_def create_flower_master_def
      get_flowers_def update_flower_def update_flower_type_def create_bouquet_master_def
      get_bouquets_def update_bouquet_def update_bouquet_type_def create_consumable_master_def
      get_consumables_def update_consumable_def update_consumable_type_def
      get_all_measurement_types_def create_supply_def delete_flower_type_def
      delete_bouquet_type_def delete_consumable_type_def,
    (rule answers_try_fetch answers_fetch_after removes_try_delete)+)


lemma get_payment_types_shop:
  "sent (get_payment_types shop net) =
     [\<lparr>http_method = ''GET'',
       url = ''https://dev.api.oy-gul.uz/api/transaction/payment-types'', params = [],
       payload = None, headers = [Bearer (JStr ''jwt'')], cookies = [], timeout = 10\<rparr>]"
  by (simp add: get_payment_types_def fetch_after_def and_then_def item_def shop_def base_def)

text \<open>Claim C1, as amended, at \<open>get_payment_types\<close>, \<open>refresh_token\<close> and \<open>login\<close>:
  the calls fail with status 401, and succeed with status 200.\<close>

theorem tool_results_witness:
  "sent (get_payment_types shop refusing) =
     [\<lparr>http_method = ''GET'',
       url = ''https://dev.api.oy-gul.uz/api/transaction/payment-types'', params = [],
       payload = None, headers = [Bearer (JStr ''jwt'')], cookies = [], timeout = 10\<rparr>]
   \<and> returned (get_payment_types shop refusing) =
       Inr (JObj [(''status'', JStr ''error''),
                  (''error_message'',
                   JStr ''Failed to get payment types: 401 Client Error: Unauthorized'')])
   \<and> returned (get_payment_types shop accepting) = Inr (JObj [(''data'', JList [])])
   \<and> refresh_token ''ref'' shop accepting =
       \<lparr>returned = Inr JNull,
        sent = [\<lparr>http_method = ''POST'', url = ''https://dev.api.oy-gul.uz/api/auth/refresh'',
                 params = [], payload = None, headers = [],
                 cookies = [(''refreshToken'', ''ref'')], timeout = 10\<rparr>],
        ctx = shop(''refresh_token'' \<mapsto> JStr ''ref2'', ''bearer_token'' \<mapsto> JStr ''jwt2'')\<rparr>
   \<and> refresh_token ''ref'' shop refusing =
       \<lparr>returned = Inr (JObj [(''status'', JStr ''error''),
          (''message'',
           JStr ''error while refreshing the token 401 Client Error: Unauthorized'')]),
        sent = [\<lparr>http_method = ''POST'', url = ''https://dev.api.oy-gul.uz/api/auth/refresh'',
                 params = [], payload = None, headers = [],
                 cookies = [(''refreshToken'', ''ref'')], timeout = 10\<rparr>],
        ctx = shop\<rparr>
   \<and> fst (login refusing ''alice'' ''secret'') =
       Inl (HTTPError ''401 Client Error: Unauthorized'')"
proof -
  note acc = tool_results [where st = shop and net = accepting and token = "''ref''"]
  note ref = tool_results [where st = shop and net = refusing and token = "''ref''"
      and a = "''alice''" and b = "''secret''"]
  have a: "answers ''Failed to get payment types: '' refusing (get_payment_types shop refusing)"
    and b: "answers ''Failed to get payment types: '' accepting
              (get_payment_types shop accepting)"
    using ref [THEN conjunct2, THEN conjunct1] acc [THEN conjunct2, THEN conjunct1]
    by simp_all
  have p1: "returned (get_payment_types shop refusing) =
       Inr (JObj [(''status'', JStr ''error''),
                  (''error_message'',
                   JStr ''Failed to get payment types: 401 Client Error: Unauthorized'')])"
    using a unfolding answers_def get_payment_types_shop
    by (simp add: fetch_json_def send_def refusing_def raise_for_status_def error_record_def)
  have p2: "returned (get_payment_types shop accepting) = Inr (JObj [(''data'', JList [])])"
    using b unfolding answers_def get_payment_types_shop
    by (simp add: fetch_json_def send_def accepting_def raise_for_status_def
        response_json_def)
  have f1: "fetch_status accepting
              \<lparr>http_method = ''POST'', url = ''https://dev.api.oy-gul.uz/api/auth/refresh'',
               params = [], payload = None, headers = [],
               cookies = [(''refreshToken'', ''ref'')], timeout = 10\<rparr> =
            Inr \<lparr>status_code = 200, error_text = [],
                 body = Inr (JObj [(''data'', JObj [(''token'', JStr ''jwt2'')])]),
                 resp_cookies = [''refreshToken'' \<mapsto> ''ref2'']\<rparr>"
    by (simp add: fetch_status_def send_def accepting_def raise_for_status_def)
  have f2: "fetch_status refusing rq = Inl (HTTPError ''401 Client Error: Unauthorized'')"
    for rq
    by (simp add: fetch_status_def send_def refusing_def raise_for_status_def)
  have r1: "refresh_token ''ref'' shop accepting =
       \<lparr>returned = Inr JNull,
        sent = [\<lparr>http_method = ''POST'', url = ''https://dev.api.oy-gul.uz/api/auth/refresh'',
                 params = [], payload = None, headers = [],
                 cookies = [(''refreshToken'', ''ref'')], timeout = 10\<rparr>],
        ctx = shop(''refresh_token'' \<mapsto> JStr ''ref2'', ''bearer_token'' \<mapsto> JStr ''jwt2'')\<rparr>"
    using acc f1 by (simp add: and_then_def response_json_def)
  have r2: "refresh_token ''ref'' shop refusing =
       \<lparr>returned = Inr (JObj [(''status'', JStr ''error''),
          (''message'',
           JStr ''error while refreshing the token 401 Client Error: Unauthorized'')]),
        sent = [\<lparr>http_method = ''POST'', url = ''https://dev.api.oy-gul.uz/api/auth/refresh'',
                 params = [], payload = None, headers = [],
                 cookies = [(''refreshToken'', ''ref'')], timeout = 10\<rparr>],
        ctx = shop\<rparr>"
    using ref f2 by simp
  have l: "fst (login refusing ''alice'' ''secret'') =
       Inl (HTTPError ''401 Client Error: Unauthorized'')"
    using ref f2 by simp
  show ?thesis
    using get_payment_types_shop p1 p2 r1 r2 l by simp
qed

text \<open>Claim C1 as stated fails: on success \<open>delete_flower_type\<close> returns a record that
  is not the body of the response and \<open>refresh_token\<close> returns \<open>None\<close>; \<open>login\<close> raises
  on status 401; and a response of status 300, which is not 2xx, is returned as a
  success.\<close>

theorem tool_results_counterexample:
  "returned (delete_flower_type ''ft1'' shop accepting) =
     Inr (JObj [(''status'', JStr ''success''),
                (''message'', JStr ''flower_type ft1 deleted successfully.'')])
   \<and> fetch_json accepting (hd (sent (delete_flower_type ''ft1'' shop accepting))) =
     Inr (JObj [(''data'', JList [])])
   \<and> returned (refresh_token ''ref'' shop accepting) = Inr JNull
   \<and> fst (login refusing ''alice'' ''secret'') = Inl (HTTPError ''401 Client Error: Unauthorized'')
   \<and> returned (get_payment_types shop choices) = Inr (JList [JStr ''a'', JStr ''b''])"
proof -
  have d: "returned (delete_flower_type ''ft1'' shop accepting) =
     Inr (JObj [(''status'', JStr ''success''),
                (''message'', JStr ''flower_type ft1 deleted successfully.'')])"
    by (simp add: delete_flower_type_def try_delete_def fetch_status_def send_def
        accepting_def raise_for_status_def base_def)
  have b: "fetch_json accepting (hd (sent (delete_flower_type ''ft1'' shop accepting))) =
     Inr (JObj [(''data'', JList [])])"
    by (simp add: delete_flower_type_def try_delete_def fetch_json_def send_def
        accepting_def raise_for_status_def response_json_def base_def)
  have r: "returned (refresh_token ''ref'' shop accepting) = Inr JNull"
    by (simp add: refresh_token_def Let_def and_then_def fetch_status_def send_def
        accepting_def raise_for_status_def response_json_def base_def)
  have l: "fst (login refusing ''alice'' ''secret'') =
             Inl (HTTPError ''401 Client Error: Unauthorized'')"
    by (simp add: login_def io_bind_def call_def fetch_status_def send_def refusing_def
        raise_for_status_def)
  have c: "returned (get_payment_types shop choices) = Inr (JList [JStr ''a'', JStr ''b''])"
    by (simp add: get_payment_types_def fetch_after_def and_then_def item_def shop_def
        fetch_json_def send_def choices_def raise_for_status_def response_json_def)
  show ?thesis using d b r l c by simp
qed

lemma absent_token: "''bearer_token'' \<notin> dom st \<Longrightarrow> get st ''bearer_token'' = JNull"
  by (auto simp: get_def get_or_def split: option.splits)

lemma no_item: "k \<notin> dom st \<Longrightarrow> item st k = Inl (KeyError k)"
  by (auto simp: item_def split: option.splits)

lemma has_item: "k \<in> dom st \<Longrightarrow> \<exists>v. item st k = Inr v"
  by (auto simp: item_def split: option.splits)

lemma proceeds_two_items:
  assumes "''merchant_id'' \<in> dom st" and "''branch_id'' \<in> dom st"
    and "\<And>m b. hd (headers (f m b)) = Bearer JNull"
  shows "proceeds (try_fetch p st net
           (and_then (item st ''merchant_id'') (\<lambda>m. and_then (item st ''branch_id'') (\<lambda>b.
              Inr (f m b)))))"
proof -
  obtain m b where "item st ''merchant_id'' = Inr m" and "item st ''branch_id'' = Inr b"
    using has_item [OF assms(1)] has_item [OF assms(2)] by blast
  then show ?thesis
    by (simp add: proceeds_def try_fetch_def and_then_def assms(3))
qed

lemma proceeds_plain:
  "hd (headers rq) = Bearer JNull \<Longrightarrow> proceeds (try_fetch p st net (Inr rq))"
  by (simp add: proceeds_def try_fetch_def)

lemma proceeds_delete:
  "hd (headers rq) = Bearer JNull \<Longrightarrow> proceeds (try_delete p msg st net rq)"
  by (simp add: proceeds_def try_delete_def)

text \<open>
  Claim C3, as amended. Let the session state hold no \<open>bearer_token\<close>. The tools of the
  content service read the token with \<open>state.get\<close> and send their request with the
  header \<open>Bearer None\<close>: the create and list tools of flowers, bouquets and consumables
  when \<open>merchant_id\<close> and \<open>branch_id\<close> are in the state, \<open>create_supply\<close> when
  \<open>branch_id\<close> is, the update and delete tools and \<open>get_all_measurement_types\<close>
  whatever the state. \<open>search_feed\<close> and \<open>refresh_token\<close> send their request without
  any header. The five order tools read the token with \<open>state['bearer_token']\<close> and
  send no request.
\<close>

theorem missing_bearer_token:
  assumes "''bearer_token'' \<notin> dom st"
  shows "(''merchant_id'' \<in> dom st \<and> ''branch_id'' \<in> dom st \<longrightarrow>
            proceeds (create_flower_master name description quantity unit_cost price
                        sold_separately sold_online photo_urls st net)
          \<and> proceeds (get_flowers st net search type_ids ids page limit srt)
          \<and> proceeds (create_bouquet_master name description price sold_online photo_urls
                        tags spent st net)
          \<and> proceeds (get_bouquets st net search type_ids ids lang page limit srt)
          \<and> proceeds (create_consumable_master st net name measurement_type_id amount cost
                        photos)
          \<and> proceeds (get_consumables st net search type_ids ids page limit srt))
       \<and> (''branch_id'' \<in> dom st \<longrightarrow>
            proceeds (create_supply now st net quantity unit_cost product_type product_id))
       \<and> proceeds (update_flower st net flower_id quantity price_arg separately online)
       \<and> proceeds (update_flower_type st net type_id name_arg description_arg photos_arg)
       \<and> proceeds (delete_flower_type type_id st net)
       \<and> proceeds (update_bouquet st net bouquet_id quantity_arg price_arg online)
       \<and> proceeds (update_bouquet_type st net type_id name_arg description_arg tags_arg
                     photos_arg spent_arg)
       \<and> proceeds (delete_bouquet_type type_id st net)
       \<and> proceeds (update_consumable st net consumable_id amount)
       \<and> proceeds (update_consumable_type st net type_id name_arg measurement_arg photos_arg)
       \<and> proceeds (delete_consumable_type type_id st net)
       \<and> proceeds (get_all_measurement_types st net)
       \<and> bare (search_feed st net page limit product_arg search min_price max_price srt
                 has_discount tag_list)
       \<and> bare (refresh_token token st net)
       \<and> sent (create_order products payment_type gift_card_note st net) = []
       \<and> sent (get_payment_types st net) = []
       \<and> sent (get_orders_by_status upper status st net page limit) = []
       \<and> sent (confirm_order order_id st net) = []
       \<and> sent (cancel_order order_id st net) = []"
proof -
  note tok = absent_token [OF assms] and key = no_item [OF assms]
  have two: "''merchant_id'' \<in> dom st \<and> ''branch_id'' \<in> dom st \<longrightarrow>
            proceeds (create_flower_master name description quantity unit_cost price
                        sold_separately sold_online photo_urls st net)
          \<and> proceeds (get_flowers st net search type_ids ids page limit srt)
          \<and> proceeds (create_bouquet_master name description price sold_online photo_urls
                        tags spent st net)
          \<and> proceeds (get_bouquets st net search type_ids ids lang page limit srt)
          \<and> proceeds (create_consumable_master st net name measurement_type_id amount cost
                        photos)
          \<and> proceeds (get_consumables st net search type_ids ids page limit srt)"
    unfolding create_flower_master_def get_flowers_def create_bouquet_master_def
      get_bouquets_def create_consumable_master_def get_consumables_def
    by (intro impI conjI; elim conjE; rule proceeds_two_items) (simp_all add: tok)
  have sup: "''branch_id'' \<in> dom st \<longrightarrow>
            proceeds (create_supply now st net quantity unit_cost product_type product_id)"
  proof
    assume "''branch_id'' \<in> dom st"
    then obtain b where "item st ''branch_id'' = Inr b"
      using has_item by blast
    then show "proceeds (create_supply now st net quantity unit_cost product_type product_id)"
      by (simp add: create_supply_def proceeds_def try_fetch_def and_then_def tok)
  qed
  have upd:
    "proceeds (update_flower st net flower_id quantity price_arg separately online)"
    "proceeds (update_flower_type st net type_id name_arg description_arg photos_arg)"
    "proceeds (update_bouquet st net bouquet_id quantity_arg price_arg online)"
    "proceeds (update_bouquet_type st net type_id name_arg description_arg tags_arg
                     photos_arg spent_arg)"
    "proceeds (update_consumable st net consumable_id amount)"
    "proceeds (update_consumable_type st net type_id name_arg measurement_arg photos_arg)"
    "proceeds (get_all_measurement_types st net)"
    unfolding update_flower_def update_flower_type_def update_bouquet_def
      update_bouquet_type_def update_consumable_def update_consumable_type_def
      get_all_measurement_types_def
    by (rule proceeds_plain, simp add: tok json_headers_def)+
  have dels:
    "proceeds (delete_flower_type type_id st net)"
    "proceeds (delete_bouquet_type type_id st net)"
    "proceeds (delete_consumable_type type_id st net)"
    unfolding delete_flower_type_def delete_bouquet_type_def delete_consumable_type_def
    by (rule proceeds_delete, simp add: tok)+
  have feed: "bare (search_feed st net page limit product_arg search min_price max_price srt
                 has_discount tag_list)"
    by (simp add: bare_def search_feed_def try_fetch_def Let_def)
  have refresh: "bare (refresh_token token st net)"
    by (simp add: bare_def refresh_token_def Let_def split: sum.splits)
  have orders:
    "sent (create_order products payment_type gift_card_note st net) = []"
    "sent (get_payment_types st net) = []"
    "sent (get_orders_by_status upper status st net page limit) = []"
    "sent (confirm_order order_id st net) = []"
    "sent (cancel_order order_id st net) = []"
    by (simp_all add: create_order_def get_payment_types_def get_orders_by_status_def
        confirm_order_def cancel_order_def try_fetch_def fetch_after_def and_then_def key
        Let_def split: sum.splits)
  show ?thesis
    using two sup upd dels feed refresh orders by blast
qed


text \<open>Claim C3, as amended, in the state of a user without token.\<close>

theorem missing_bearer_token_witness:
  "''bearer_token'' \<notin> dom guest \<and> ''merchant_id'' \<in> dom guest \<and> ''branch_id'' \<in> dom guest
   \<and> sent (get_flowers guest accepting Omitted Omitted Omitted Omitted Omitted Omitted) =
     [\<lparr>http_method = ''GET'', url = ''https://dev.api.oy-gul.uz/api/content/flowers'',
       params = [(''merchant_id'', JStr ''m1''), (''branch_id'', JStr ''b1''),
                 (''sort'', JStr ''updatedAt-desc'')],
       payload = None, headers = [Bearer JNull], cookies = [], timeout = 10\<rparr>]
   \<and> proceeds (get_flowers guest accepting Omitted Omitted Omitted Omitted Omitted Omitted)
   \<and> sent (cancel_order ''o1'' guest accepting) = []"
proof -
  have h: "''bearer_token'' \<notin> dom guest"
    by (simp add: guest_def)
  have m: "''merchant_id'' \<in> dom guest" and b: "''branch_id'' \<in> dom guest"
    by (simp_all add: guest_def)
  have s: "sent (get_flowers guest accepting Omitted Omitted Omitted Omitted Omitted Omitted) =
     [\<lparr>http_method = ''GET'', url = ''https://dev.api.oy-gul.uz/api/content/flowers'',
       params = [(''merchant_id'', JStr ''m1''), (''branch_id'', JStr ''b1''),
                 (''sort'', JStr ''updatedAt-desc'')],
       payload = None, headers = [Bearer JNull], cookies = [], timeout = 10\<rparr>]"
    by (simp add: get_flowers_def try_fetch_def and_then_def item_def guest_def base_def
        list_params_def put_opt_def put_json_def opt_def sort_default_def get_def get_or_def)
  show ?thesis
    using h m b s
      missing_bearer_token [OF h, where net = accepting and search = Omitted
        and type_ids = Omitted and ids = Omitted and page = Omitted and limit = Omitted
        and srt = Omitted and order_id = "''o1''"]
    by simp
qed

text \<open>Claim C3 as stated fails: without a bearer token \<open>create_order\<close> returns the
  error record of a \<open>KeyError\<close> and \<open>get_payment_types\<close> raises it; neither sends a
  request.\<close>

theorem missing_bearer_token_counterexample:
  "''bearer_token'' \<notin> dom guest
   \<and> create_order (JList []) ''CLICK'' None guest accepting =
       \<lparr>returned = Inr (JObj [(''status'', JStr ''error''),
          (''error_message'', JStr (''Failed to create order: '' @ quoted ''bearer_token''))]),
        sent = [], ctx = guest\<rparr>
   \<and> get_payment_types guest accepting =
       \<lparr>returned = Inl (KeyError ''bearer_token''), sent = [], ctx = guest\<rparr>"
  by (simp add: guest_def create_order_def get_payment_types_def try_fetch_def
      fetch_after_def and_then_def item_def error_record_def)

section \<open>Properties of the Telegram front end\<close>

lemma io_bind_snd: "\<exists>rest. snd (io_bind (call net rq) f) = rq # rest"
  by (auto simp: io_bind_def call_def split: sum.splits prod.splits)

lemma login_sends_first: "\<exists>rest. snd (login net a b) = \<lparr>http_method = ''POST'', url = ''https://dev.api.oy-gul.uz/api/auth/login'',
                                                                params = [],
                                                                payload = Some (JObj [(''login'', JStr a), (''password'', JStr b)]),
                                                                headers = [], cookies = [], timeout = 10\<rparr> # rest"
  using io_bind_snd [of net "login_request a b"]
  by (simp add: login_def login_request_def base_def)

lemma io_bind_InrE:
  assumes "io_bind m f = (Inr r, l)"
  obtains v l1 l2 where "m = (Inr v, l1)" and "f v = (Inr r, l2)" and "l = l1 @ l2"
  using assms by (auto simp: io_bind_def split: sum.splits prod.splits)

lemma login_shape:
  assumes "login net a b = (Inr r, reqs)"
  shows "\<exists>uid tok rtok mid bid.
           r = JObj [(''user_id'', uid), (''bearer_token'', tok), (''refresh_token'', rtok),
                     (''merchant_id'', mid), (''branch_id'', bid)]"
  using assms unfolding login_def
  by (elim io_bind_InrE) (auto simp: pure_def)

lemma awaiting_dispatch:
  "awaiting sv m s \<Longrightarrow> all_messages_handler sv net now m = credentials_handler sv net now m"
  by (simp add: awaiting_def all_messages_handler_def Let_def)

lemma awaiting_lang:
  "awaiting sv m s \<Longrightarrow> get_or (state s) ''user_language'' d = get (state s) ''user_language''"
  by (auto simp: awaiting_def get_def get_or_def)

text \<open>
  Claim C6. A text message arrives while the session of its sender waits for
  credentials, and its text does not split into exactly two tokens. Then the handler
  sends nothing to the backend (no login call), answers with the prompt for the
  credentials format in the language of the session (the Uzbek literal for \<open>uz\<close>, the
  Russian one for \<open>ru\<close>, the English one otherwise) and leaves the session store as it
  was.
\<close>

theorem malformed_credentials:
  assumes "awaiting sv m s" and "msg_text m = Some t" and "length (split t) \<noteq> 2"
  shows "all_messages_handler sv net now m =
           \<lparr>sessions = sv,
            replies = [Credentials_format (literal_for (get (state s) ''user_language''))],
            requests = [], forwarded = [], raised = None\<rparr>"
proof -
  have "credentials_handler sv net now m =
           \<lparr>sessions = sv,
            replies = [Credentials_format (literal_for (get (state s) ''user_language''))],
            requests = [], forwarded = [], raised = None\<rparr>"
    using assms awaiting_lang [OF assms(1)]
    by (auto simp: credentials_handler_def awaiting_def Let_def split: list.splits)
  then show ?thesis by (simp add: awaiting_dispatch [OF assms(1)])
qed

text \<open>
  Claim C7. Credentials of two tokens arrive while the session waits for them, and
  \<open>login\<close> raises \<open>HTTPError\<close> (the status of one of its responses is an error status,
  such as 401). Then the session store is left as it was, so no event is appended and
  \<open>awaiting_credentials\<close> stays true, and the answer is the prompt for a wrong login
  or password in the language of the session.
\<close>

theorem login_unauthorized:
  assumes "awaiting sv m s" and "msg_text m = Some t" and "split t = [a, b]"
    and "login net a b = (Inl (HTTPError x), reqs)"
  shows "all_messages_handler sv net now m =
           \<lparr>sessions = sv,
            replies = [Invalid_login (literal_for (get (state s) ''user_language''))],
            requests = reqs, forwarded = [], raised = None\<rparr>"
proof -
  have "credentials_handler sv net now m =
           \<lparr>sessions = sv,
            replies = [Invalid_login (literal_for (get (state s) ''user_language''))],
            requests = reqs, forwarded = [], raised = None\<rparr>"
    using assms awaiting_lang [OF assms(1)]
    by (simp add: credentials_handler_def awaiting_def Let_def and_then_def)
  then show ?thesis by (simp add: awaiting_dispatch [OF assms(1)])
qed


lemma merge_login:
  assumes "''user_language'' \<in> dom st"
  shows "merge st [(''user_language'', get st ''user_language''),
                   (''awaiting_credentials'', aw), (''user_id'', uid), (''merchant_id'', mid),
                   (''branch_id'', bid), (''bearer_token'', tok), (''refresh_token'', rtok)]
         = st(''awaiting_credentials'' \<mapsto> aw, ''user_id'' \<mapsto> uid, ''merchant_id'' \<mapsto> mid,
              ''branch_id'' \<mapsto> bid, ''bearer_token'' \<mapsto> tok, ''refresh_token'' \<mapsto> rtok)"
  using assms
  by (auto simp: merge_def map_add_def get_def get_or_def fun_eq_iff split: option.splits)

text \<open>
  Claim C5. A message whose text splits into exactly two tokens \<open>a\<close> and \<open>b\<close> arrives
  while the session waits for credentials. Then the first request the handler sends is
  the POST to \<open>/api/auth/login\<close> whose JSON payload is \<open>{"login": a, "password": b}\<close>.
  If \<open>login\<close> returns, it
  returns the five values \<open>user_id\<close>, \<open>bearer_token\<close>, \<open>refresh_token\<close>, \<open>merchant_id\<close>
  and \<open>branch_id\<close>, and the handler appends exactly one event to the session; its state
  delta holds these five values, \<open>awaiting_credentials = False\<close> and the language the
  session already had, and the state of the session is the old state with the five
  values merged in and \<open>awaiting_credentials\<close> set to false.
\<close>

theorem login_success:
  assumes "awaiting sv m s" and "msg_text m = Some t" and "split t = [a, b]"
  shows "(\<exists>rest. requests (all_messages_handler sv net now m) = \<lparr>http_method = ''POST'', url = ''https://dev.api.oy-gul.uz/api/auth/login'',
                                                                         params = [],
                                                                         payload = Some (JObj [(''login'', JStr a), (''password'', JStr b)]),
                                                                         headers = [], cookies = [], timeout = 10\<rparr> # rest)
       \<and> (\<forall>r reqs. login net a b = (Inr r, reqs) \<longrightarrow>
            (\<exists>uid mid bid tok rtok.
               r = JObj [(''user_id'', uid), (''bearer_token'', tok), (''refresh_token'', rtok),
                         (''merchant_id'', mid), (''branch_id'', bid)]
             \<and> all_messages_handler sv net now m =
                 \<lparr>sessions = sv(session_key (from_user m) \<mapsto>
                    \<lparr>state = (state s)(''awaiting_credentials'' \<mapsto> JBool False,
                       ''user_id'' \<mapsto> uid, ''merchant_id'' \<mapsto> mid, ''branch_id'' \<mapsto> bid,
                       ''bearer_token'' \<mapsto> tok, ''refresh_token'' \<mapsto> rtok),
                     events = events s @
                       [login_event now
                          [(''user_language'', get (state s) ''user_language''),
                           (''awaiting_credentials'', JBool False), (''user_id'', uid),
                           (''merchant_id'', mid), (''branch_id'', bid),
                           (''bearer_token'', tok), (''refresh_token'', rtok)]]\<rparr>),
                  replies = [Logged_in (literal_for (get (state s) ''user_language''))],
                  requests = reqs, forwarded = [], raised = None\<rparr>))"
proof (intro conjI allI impI)
  obtain rest where rest: "snd (login net a b) = \<lparr>http_method = ''POST'', url = ''https://dev.api.oy-gul.uz/api/auth/login'',
                                                  params = [],
                                                  payload = Some (JObj [(''login'', JStr a), (''password'', JStr b)]),
                                                  headers = [], cookies = [], timeout = 10\<rparr> # rest"
    using login_sends_first by blast
  have "requests (credentials_handler sv net now m) = snd (login net a b)"
    using assms
    by (auto simp: credentials_handler_def awaiting_def Let_def
        split: prod.splits sum.splits exn.splits)
  then show "\<exists>rest. requests (all_messages_handler sv net now m) = \<lparr>http_method = ''POST'', url = ''https://dev.api.oy-gul.uz/api/auth/login'',
                                                                            params = [],
                                                                            payload = Some (JObj [(''login'', JStr a), (''password'', JStr b)]),
                                                                            headers = [], cookies = [], timeout = 10\<rparr> # rest"
    using rest by (simp add: awaiting_dispatch [OF assms(1)])
next
  fix r reqs
  assume ok: "login net a b = (Inr r, reqs)"
  obtain uid tok rtok mid bid where
    r: "r = JObj [(''user_id'', uid), (''bearer_token'', tok), (''refresh_token'', rtok),
                  (''merchant_id'', mid), (''branch_id'', bid)]"
    using login_shape [OF ok] by blast
  have dom: "''user_language'' \<in> dom (state s)"
    using assms(1) by (simp add: awaiting_def)
  have key: "sv (session_key (from_user m)) = Some s"
    using assms(1) by (simp add: awaiting_def get_session_def)
  have "credentials_handler sv net now m =
          \<lparr>sessions = sv(session_key (from_user m) \<mapsto>
             \<lparr>state = (state s)(''awaiting_credentials'' \<mapsto> JBool False,
                ''user_id'' \<mapsto> uid, ''merchant_id'' \<mapsto> mid, ''branch_id'' \<mapsto> bid,
                ''bearer_token'' \<mapsto> tok, ''refresh_token'' \<mapsto> rtok),
              events = events s @
                [login_event now
                   [(''user_language'', get (state s) ''user_language''),
                    (''awaiting_credentials'', JBool False), (''user_id'', uid),
                    (''merchant_id'', mid), (''branch_id'', bid),
                    (''bearer_token'', tok), (''refresh_token'', rtok)]]\<rparr>),
           replies = [Logged_in (literal_for (get (state s) ''user_language''))],
           requests = reqs, forwarded = [], raised = None\<rparr>"
    using assms ok awaiting_lang [OF assms(1)] key
    by (simp add: credentials_handler_def get_session_def Let_def r and_then_def
        append_event_def login_event_def merge_login [OF dom])
  then show "\<exists>uid mid bid tok rtok.
               r = JObj [(''user_id'', uid), (''bearer_token'', tok), (''refresh_token'', rtok),
                         (''merchant_id'', mid), (''branch_id'', bid)]
             \<and> all_messages_handler sv net now m =
                 \<lparr>sessions = sv(session_key (from_user m) \<mapsto>
                    \<lparr>state = (state s)(''awaiting_credentials'' \<mapsto> JBool False,
                       ''user_id'' \<mapsto> uid, ''merchant_id'' \<mapsto> mid, ''branch_id'' \<mapsto> bid,
                       ''bearer_token'' \<mapsto> tok, ''refresh_token'' \<mapsto> rtok),
                     events = events s @
                       [login_event now
                          [(''user_language'', get (state s) ''user_language''),
                           (''awaiting_credentials'', JBool False), (''user_id'', uid),
                           (''merchant_id'', mid), (''branch_id'', bid),
                           (''bearer_token'', tok), (''refresh_token'', rtok)]]\<rparr>),
                  replies = [Logged_in (literal_for (get (state s) ''user_language''))],
                  requests = reqs, forwarded = [], raised = None\<rparr>"
    using r by (auto simp: awaiting_dispatch [OF assms(1)])
qed


lemma credentials_forward_nothing: "forwarded (credentials_handler sv net now m) = []"
  by (simp add: credentials_handler_def Let_def
      split: option.splits list.splits prod.splits sum.splits exn.splits)

lemma credentials_requests:
  "requests (credentials_handler sv net now m) = []
   \<or> (\<exists>t a b. msg_text m = Some t \<and> split t = [a, b]
        \<and> requests (credentials_handler sv net now m) = snd (login net a b))"
  by (auto simp: credentials_handler_def Let_def
      split: option.splits list.splits prod.splits sum.splits exn.splits)

text \<open>
  Claim C8. When the state of the sender's session holds no \<open>bearer_token\<close>, the
  handler of incoming messages hands nothing to the agent runtime, the only caller of
  the tools; and the only requests it can send to the backend are those of \<open>login\<close>
  with the two tokens of the message, which is how a bearer token comes into the state.
\<close>

theorem no_bearer_token_not_forwarded:
  assumes "get_session sv (session_key (from_user m)) = Some s"
    and "''bearer_token'' \<notin> dom (state s)"
  shows "forwarded (all_messages_handler sv net now m) = []
       \<and> (requests (all_messages_handler sv net now m) = []
          \<or> (\<exists>t a b. msg_text m = Some t \<and> split t = [a, b]
               \<and> requests (all_messages_handler sv net now m) = snd (login net a b)))"
  using assms credentials_requests [of sv net now m]
  by (auto simp: all_messages_handler_def Let_def credentials_forward_nothing)

lemma ws_len_blank: "blank c \<Longrightarrow> ws_len (c # cs) = 1"
  by (simp add: blank_def Let_def)

lemma ws_len_plain: "plain c \<Longrightarrow> ws_len (c # cs) = 0"
  by (auto simp: plain_def blank_def Let_def ws3_def split: list.splits)

lemma tokens_plain:
  "\<forall>c \<in> set a. plain c \<Longrightarrow> tokens 0 cur (a @ r) = tokens 0 (cur @ a) r"
  by (induction a arbitrary: cur) (simp_all add: ws_len_plain del: ws_len.simps)

lemma tokens_blank:
  "\<forall>c \<in> set w. blank c \<Longrightarrow>
     tokens 0 cur (w @ r) = (if w = [] then tokens 0 cur r else flush cur @ tokens 0 [] r)"
  by (induction w arbitrary: cur) (simp_all add: ws_len_blank flush_def del: ws_len.simps)

lemma split_two_tokens:
  assumes "\<forall>c \<in> set w1. blank c" and "\<forall>c \<in> set w2. blank c" and "\<forall>c \<in> set w3. blank c"
    and "w2 \<noteq> []" and "\<forall>c \<in> set a. plain c" and "\<forall>c \<in> set b. plain c"
    and "a \<noteq> []" and "b \<noteq> []"
  shows "split (w1 @ a @ w2 @ b @ w3) = [a, b]"
proof -
  have "tokens 0 [] (w1 @ a @ w2 @ b @ w3) = tokens 0 [] (a @ w2 @ b @ w3)"
    using assms(1) by (simp add: tokens_blank flush_def)
  also have "\<dots> = tokens 0 a (w2 @ b @ w3)"
    using assms(5) by (simp add: tokens_plain)
  also have "\<dots> = [a] @ tokens 0 [] (b @ w3)"
    using assms(2,4,7) by (simp add: tokens_blank flush_def)
  also have "tokens 0 [] (b @ w3) = tokens 0 b w3"
    using assms(6) by (simp add: tokens_plain)
  also have "tokens 0 b w3 = [b]"
    using assms(3,8) tokens_blank [of w3 b "[]"] by (simp add: flush_def)
  finally show ?thesis by (simp add: split_def)
qed

text \<open>
  Claim C10. While the session waits for credentials, a text message leads to a
  request to the backend exactly when \<open>text.split()\<close> has two tokens, and then the
  first request is the POST to \<open>/api/auth/login\<close> whose JSON payload holds the first
  token as \<open>login\<close> and the second as \<open>password\<close>, as they are. \<open>split\<close>
  cuts at every run of whitespace: a text made of two words with whitespace of any
  length between them and any whitespace before and after them (tabs, newlines,
  spaces) has exactly these two words as its tokens.
\<close>

theorem credentials_accepted_iff:
  assumes "awaiting sv m s" and "msg_text m = Some t"
  shows "((requests (all_messages_handler sv net now m) \<noteq> []) = (length (split t) = 2))
       \<and> (\<forall>a b. split t = [a, b] \<longrightarrow>
             (\<exists>rest. requests (all_messages_handler sv net now m) = \<lparr>http_method = ''POST'', url = ''https://dev.api.oy-gul.uz/api/auth/login'',
                                                                             params = [],
                                                                             payload = Some (JObj [(''login'', JStr a), (''password'', JStr b)]),
                                                                             headers = [], cookies = [], timeout = 10\<rparr> # rest))
       \<and> (\<forall>w1 a w2 b w3.
             t = w1 @ a @ w2 @ b @ w3 \<and> list_all blank w1 \<and> list_all blank w2 \<and> w2 \<noteq> []
             \<and> list_all blank w3 \<and> list_all plain a \<and> a \<noteq> [] \<and> list_all plain b \<and> b \<noteq> []
             \<longrightarrow> split t = [a, b])"
proof (intro conjI allI impI)
  have two: "\<And>a b. split t = [a, b] \<Longrightarrow>
      \<exists>rest. requests (credentials_handler sv net now m) = \<lparr>http_method = ''POST'', url = ''https://dev.api.oy-gul.uz/api/auth/login'',
                                                                    params = [],
                                                                    payload = Some (JObj [(''login'', JStr a), (''password'', JStr b)]),
                                                                    headers = [], cookies = [], timeout = 10\<rparr> # rest"
  proof -
    fix a b assume ab: "split t = [a, b]"
    have "requests (credentials_handler sv net now m) = snd (login net a b)"
      using assms ab
      by (auto simp: credentials_handler_def awaiting_def Let_def
          split: prod.splits sum.splits exn.splits)
    then show "\<exists>rest. requests (credentials_handler sv net now m) = \<lparr>http_method = ''POST'', url = ''https://dev.api.oy-gul.uz/api/auth/login'',
                                                                             params = [],
                                                                             payload = Some (JObj [(''login'', JStr a), (''password'', JStr b)]),
                                                                             headers = [], cookies = [], timeout = 10\<rparr> # rest"
      using login_sends_first [of net a b] by simp
  qed
  have other: "length (split t) \<noteq> 2 \<Longrightarrow> requests (credentials_handler sv net now m) = []"
    using assms
    by (auto simp: credentials_handler_def awaiting_def Let_def split: list.splits)
  show "(requests (all_messages_handler sv net now m) \<noteq> []) = (length (split t) = 2)"
  proof (cases "length (split t) = 2")
    case True
    then obtain a b where "split t = [a, b]"
      by (auto simp: length_Suc_conv numeral_2_eq_2)
    then show ?thesis
      using two True by (fastforce simp: awaiting_dispatch [OF assms(1)])
  next
    case False
    then show ?thesis
      using other by (simp add: awaiting_dispatch [OF assms(1)])
  qed
  show "\<And>a b. split t = [a, b] \<Longrightarrow>
      \<exists>rest. requests (all_messages_handler sv net now m) = \<lparr>http_method = ''POST'', url = ''https://dev.api.oy-gul.uz/api/auth/login'',
                                                                     params = [],
                                                                     payload = Some (JObj [(''login'', JStr a), (''password'', JStr b)]),
                                                                     headers = [], cookies = [], timeout = 10\<rparr> # rest"
    using two by (simp add: awaiting_dispatch [OF assms(1)])
  show "\<And>w1 a w2 b w3.
       t = w1 @ a @ w2 @ b @ w3 \<and> list_all blank w1 \<and> list_all blank w2 \<and> w2 \<noteq> []
       \<and> list_all blank w3 \<and> list_all plain a \<and> a \<noteq> [] \<and> list_all plain b \<and> b \<noteq> []
       \<Longrightarrow> split t = [a, b]"
    using split_two_tokens by (simp add: list_all_iff)
qed

lemma split_on_lang:
  assumes "take 5 d = ''lang_''"
  shows "split_on CHR ''_'' d = ''lang'' # split_on CHR ''_'' (drop 5 d)"
proof -
  have "d = ''lang_'' @ drop 5 d"
    using assms append_take_drop_id [of 5 d] by simp
  then obtain r where "d = ''lang_'' @ r" and "drop 5 d = r" by auto
  then show ?thesis by (simp split: list.splits)
qed

lemma split_on_nonempty: "split_on c s \<noteq> []"
  by (induction s) (auto split: list.splits)

text \<open>
  Claim C4. A callback that passes the filter of the language handler arrives: its
  data starts with \<open>lang_\<close>. Whatever the session
  store held for the sender, it now holds for them a session without events whose
  state has exactly two keys: \<open>user_language\<close>, the text between \<open>lang_\<close> and the next
  underscore of the data, and \<open>awaiting_credentials = True\<close>. The sender is asked for
  credentials in that language.
\<close>

theorem language_selection_replaces_session:
  assumes "lang_filter c" and "data c = Some d"
  shows "process_language_selection sv c =
           \<lparr>sessions = sv(session_key (cb_from_user c) \<mapsto>
              \<lparr>state = [''user_language'' \<mapsto> JStr (hd (split_on CHR ''_'' (drop 5 d))),
                        ''awaiting_credentials'' \<mapsto> JBool True],
               events = []\<rparr>),
            replies = [Ask_credentials (literal_for (JStr (hd (split_on CHR ''_'' (drop 5 d)))))],
            requests = [], forwarded = [], raised = None\<rparr>"
proof -
  obtain x xs where x: "split_on CHR ''_'' (drop 5 d) = x # xs"
    using split_on_nonempty [of "CHR ''_''" "drop 5 d"] by (cases "split_on CHR ''_'' (drop 5 d)") auto
  have upd: "sv(session_key (cb_from_user c) := None, session_key (cb_from_user c) \<mapsto> v) =
        sv(session_key (cb_from_user c) \<mapsto> v)" for v
    by simp
  have "take 5 d = ''lang_''"
    using assms by (simp add: lang_filter_def)
  then show ?thesis
    using assms(2) split_on_lang [of d] x upd
    by (auto simp: process_language_selection_def Let_def create_session_def
        delete_session_def get_session_def fun_eq_iff)
qed


lemma split_alice: "split ''alice secret'' = [''alice'', ''secret'']"
  by code_simp

lemma split_hello: "split ''hello'' = [''hello'']"
  by code_simp

lemma awaiting_alice: "awaiting ru_sessions alice ru_session"
  by (simp add: awaiting_def ru_sessions_def alice_def ru_session_def get_session_def
      get_def get_or_def)

lemma awaiting_hello: "awaiting ru_sessions hello ru_session"
  by (simp add: awaiting_def ru_sessions_def hello_def ru_session_def get_session_def
      get_def get_or_def)

lemma login_accepting:
  "login accepting ''alice'' ''secret'' =
     (Inr (JObj [(''user_id'', JStr ''u1''), (''bearer_token'', JStr ''jwt''),
                 (''refresh_token'', JStr ''ref''), (''merchant_id'', JStr ''m1''),
                 (''branch_id'', JStr ''b1'')]),
      [\<lparr>http_method = ''POST'', url = ''https://dev.api.oy-gul.uz/api/auth/login'',
        params = [],
        payload = Some (JObj [(''login'', JStr ''alice''), (''password'', JStr ''secret'')]),
        headers = [], cookies = [], timeout = 10\<rparr>,
       \<lparr>http_method = ''GET'', url = ''https://dev.api.oy-gul.uz/api/auth/users/u1'',
        params = [], payload = None, headers = [Bearer (JStr ''jwt'')], cookies = [],
        timeout = 10\<rparr>])"
  by (simp add: login_def io_bind_def call_def fetch_status_def send_def accepting_def
      login_request_def base_def raise_for_status_def pure_def and_then_def response_json_def
      get_user_def of_opt_def)

lemma login_refusing:
  "login refusing ''alice'' ''secret'' =
     (Inl (HTTPError ''401 Client Error: Unauthorized''), [\<lparr>http_method = ''POST'', url = ''https://dev.api.oy-gul.uz/api/auth/login'',
                                                            params = [],
                                                            payload = Some (JObj [(''login'', JStr ''alice''), (''password'', JStr ''secret'')]),
                                                            headers = [], cookies = [], timeout = 10\<rparr>])"
  by (simp add: login_def io_bind_def call_def fetch_status_def send_def refusing_def
      raise_for_status_def login_request_def base_def)

text \<open>Claim C6 at the message \<open>hello\<close> in a Russian session.\<close>

theorem malformed_credentials_witness:
  "awaiting ru_sessions hello ru_session \<and> msg_text hello = Some ''hello''
   \<and> length (split ''hello'') \<noteq> 2
   \<and> all_messages_handler ru_sessions accepting 0 hello =
       \<lparr>sessions = ru_sessions, replies = [Credentials_format Ru], requests = [],
        forwarded = [], raised = None\<rparr>"
proof -
  have h2: "msg_text hello = Some ''hello''" by (simp add: hello_def)
  have h3: "length (split ''hello'') \<noteq> 2" by (simp add: split_hello)
  show ?thesis
    using awaiting_hello h2 h3 malformed_credentials [OF awaiting_hello h2 h3, of accepting 0]
    by (simp add: ru_session_def get_def get_or_def literal_for_def)
qed

text \<open>Claim C7 in a Russian session, against a backend that answers 401.\<close>

theorem login_unauthorized_witness:
  "awaiting ru_sessions alice ru_session \<and> msg_text alice = Some ''alice secret''
   \<and> split ''alice secret'' = [''alice'', ''secret'']
   \<and> login refusing ''alice'' ''secret'' =
       (Inl (HTTPError ''401 Client Error: Unauthorized''), [\<lparr>http_method = ''POST'', url = ''https://dev.api.oy-gul.uz/api/auth/login'',
                                                              params = [],
                                                              payload = Some (JObj [(''login'', JStr ''alice''), (''password'', JStr ''secret'')]),
                                                              headers = [], cookies = [], timeout = 10\<rparr>])
   \<and> all_messages_handler ru_sessions refusing 0 alice =
       \<lparr>sessions = ru_sessions, replies = [Invalid_login Ru],
        requests = [\<lparr>http_method = ''POST'', url = ''https://dev.api.oy-gul.uz/api/auth/login'',
                     params = [],
                     payload = Some (JObj [(''login'', JStr ''alice''), (''password'', JStr ''secret'')]),
                     headers = [], cookies = [], timeout = 10\<rparr>], forwarded = [], raised = None\<rparr>"
proof -
  have h2: "msg_text alice = Some ''alice secret''" by (simp add: alice_def)
  show ?thesis
    using awaiting_alice h2 split_alice login_refusing
      login_unauthorized [OF awaiting_alice h2 split_alice login_refusing, of 0]
    by (simp add: ru_session_def get_def get_or_def literal_for_def)
qed

text \<open>Claim C5 at the message \<open>alice secret\<close> in a Russian session, against a backend
  that accepts the login.\<close>

theorem login_success_witness:
  "awaiting ru_sessions alice ru_session \<and> msg_text alice = Some ''alice secret''
   \<and> split ''alice secret'' = [''alice'', ''secret'']
   \<and> sessions (all_messages_handler ru_sessions accepting 0 alice) (session_key ''42'') =
       Some \<lparr>state = [''user_language'' \<mapsto> JStr ''ru'', ''awaiting_credentials'' \<mapsto> JBool False,
                      ''user_id'' \<mapsto> JStr ''u1'', ''merchant_id'' \<mapsto> JStr ''m1'',
                      ''branch_id'' \<mapsto> JStr ''b1'', ''bearer_token'' \<mapsto> JStr ''jwt'',
                      ''refresh_token'' \<mapsto> JStr ''ref''],
             events = [login_event 0
                 [(''user_language'', JStr ''ru''), (''awaiting_credentials'', JBool False),
                  (''user_id'', JStr ''u1''), (''merchant_id'', JStr ''m1''),
                  (''branch_id'', JStr ''b1''), (''bearer_token'', JStr ''jwt''),
                  (''refresh_token'', JStr ''ref'')]]\<rparr>
   \<and> hd (requests (all_messages_handler ru_sessions accepting 0 alice)) =
       \<lparr>http_method = ''POST'', url = ''https://dev.api.oy-gul.uz/api/auth/login'',
        params = [],
        payload = Some (JObj [(''login'', JStr ''alice''), (''password'', JStr ''secret'')]),
        headers = [], cookies = [], timeout = 10\<rparr>"
proof -
  have h2: "msg_text alice = Some ''alice secret''" by (simp add: alice_def)
  have st: "[''user_language'' \<mapsto> JStr ''ru'', ''awaiting_credentials'' \<mapsto> JBool True,
             ''awaiting_credentials'' \<mapsto> JBool False] =
            [''user_language'' \<mapsto> JStr ''ru'', ''awaiting_credentials'' \<mapsto> JBool False]"
    by simp
  show ?thesis
    using awaiting_alice h2 split_alice login_accepting
      login_success [OF awaiting_alice h2 split_alice, of accepting 0]
    by (auto simp: ru_session_def get_def get_or_def alice_def)
qed


text \<open>Claim C8 in a session that has a language, waits for nothing and has no token:
  the sender is told to log in.\<close>

theorem no_bearer_token_witness:
  "get_session no_token (session_key (from_user hello)) = Some no_token_session
   \<and> ''bearer_token'' \<notin> dom (state no_token_session)
   \<and> forwarded (all_messages_handler no_token accepting 0 hello) = []
   \<and> replies (all_messages_handler no_token accepting 0 hello) = [Login_first]"
proof -
  have h1: "get_session no_token (session_key (from_user hello)) = Some no_token_session"
    by (simp add: get_session_def no_token_def hello_def)
  have h2: "''bearer_token'' \<notin> dom (state no_token_session)"
    by (simp add: no_token_session_def)
  have "replies (all_messages_handler no_token accepting 0 hello) = [Login_first]"
    using h1 by (simp add: all_messages_handler_def Let_def no_token_session_def get_def
        get_or_def)
  then show ?thesis
    using h1 h2 no_bearer_token_not_forwarded [OF h1 h2, of accepting 0] by simp
qed

text \<open>Claim C4 at the choice of Russian by a user who had logged in before: the
  session with the tokens is gone.\<close>

theorem language_selection_witness:
  "lang_filter pick_ru \<and> data pick_ru = Some ''lang_ru''
   \<and> process_language_selection logged_in pick_ru =
       \<lparr>sessions = ru_sessions, replies = [Ask_credentials Ru], requests = [],
        forwarded = [], raised = None\<rparr>"
proof -
  have h1: "lang_filter pick_ru" by (simp add: lang_filter_def pick_ru_def)
  have h2: "data pick_ru = Some ''lang_ru''" by (simp add: pick_ru_def)
  have "logged_in(session_key ''42'' \<mapsto> ru_session) = ru_sessions"
    by (simp add: logged_in_def ru_sessions_def)
  then show ?thesis
    using h1 h2 language_selection_replaces_session [OF h1 h2, of logged_in]
    by (simp add: literal_for_def pick_ru_def ru_session_def)
qed

text \<open>Claim C10 at a message with a leading space, a tab and a newline between the
  words and two trailing spaces.\<close>

theorem credentials_accepted_witness:
  "awaiting ru_sessions alice_tabs ru_session
   \<and> msg_text alice_tabs = Some ('' alice'' @ [CHR 0x09, CHR 0x0A] @ ''secret  '')
   \<and> split ('' alice'' @ [CHR 0x09, CHR 0x0A] @ ''secret  '') = [''alice'', ''secret'']
   \<and> requests (all_messages_handler ru_sessions refusing 0 alice_tabs) =
       [\<lparr>http_method = ''POST'', url = ''https://dev.api.oy-gul.uz/api/auth/login'',
         params = [],
         payload = Some (JObj [(''login'', JStr ''alice''), (''password'', JStr ''secret'')]),
         headers = [], cookies = [], timeout = 10\<rparr>]"
proof -
  have h1: "awaiting ru_sessions alice_tabs ru_session"
    by (simp add: awaiting_def ru_sessions_def alice_tabs_def ru_session_def get_session_def
        get_def get_or_def)
  have h2: "msg_text alice_tabs = Some ('' alice'' @ [CHR 0x09, CHR 0x0A] @ ''secret  '')"
    by (simp add: alice_tabs_def)
  note inst = credentials_accepted_iff [OF h1 h2, of refusing 0]
  have sp: "split ('' alice'' @ [CHR 0x09, CHR 0x0A] @ ''secret  '') = [''alice'', ''secret'']"
  proof -
    have "'' alice'' @ [CHR 0x09, CHR 0x0A] @ ''secret  ''
          = '' '' @ ''alice'' @ [CHR 0x09, CHR 0x0A] @ ''secret'' @ ''  ''
          \<and> list_all blank '' '' \<and> list_all blank [CHR 0x09, CHR 0x0A]
          \<and> [CHR 0x09, CHR 0x0A] \<noteq> [] \<and> list_all blank ''  ''
          \<and> list_all plain ''alice'' \<and> ''alice'' \<noteq> [] \<and> list_all plain ''secret''
          \<and> ''secret'' \<noteq> []"
      by (simp add: blank_def plain_def)
    then show ?thesis using inst by blast
  qed
  obtain rest where rest:
    "requests (all_messages_handler ru_sessions refusing 0 alice_tabs) =
       \<lparr>http_method = ''POST'', url = ''https://dev.api.oy-gul.uz/api/auth/login'',
        params = [],
        payload = Some (JObj [(''login'', JStr ''alice''), (''password'', JStr ''secret'')]),
        headers = [], cookies = [], timeout = 10\<rparr> # rest"
    using inst sp by blast
  have "requests (all_messages_handler ru_sessions refusing 0 alice_tabs) =
          snd (login refusing ''alice'' ''secret'')"
    using h1 h2 sp
    by (simp add: awaiting_dispatch [OF h1] credentials_handler_def awaiting_def Let_def
        login_refusing and_then_def del: append.simps)
  then show ?thesis
    using h1 h2 sp rest by (simp add: login_refusing del: append.simps)
qed

end
